theory Spec2Isabelle
  imports Complex_Main "HOL-Library.Word"
begin

unbundle bit_operations_syntax

section \<open>Data model\<close>

text \<open>
  A Modbus register is a 16-bit unsigned word. A C \<open>float\<close> is represented by its 32-bit
  IEEE-754 bit pattern, so that \<open>memcpy\<close> between \<open>uint32_t\<close> and \<open>float\<close> is the
  identity on the model and non-finite and denormal patterns are ordinary values.
\<close>

type_synonym reg_word = "16 word"
type_synonym float32 = "32 word"

text \<open>
  The numeric value of a \<open>float\<close> or \<open>double\<close>: a finite real, an infinity, or NaN.
  There is a single zero; the sign of a zero is not modelled. Division treats the zero as
  \<open>+0\<close>, which is the zero the only divisor of the program can be: the sum \<open>1.0 + x\<close>
  is \<open>+0\<close> whenever it is zero.
\<close>

datatype dbl = Fin real | PInf | NInf | NaN

text \<open>
  Rounding to nearest, ties to even, as every IEEE-754 operation of the program rounds its
  exact result. \<open>rne\<close> rounds a real to an integer. \<open>exp_search\<close> finds the binary exponent
  of a positive number, counting up from the smallest normal exponent, so that numbers
  below the normal range keep that exponent (subnormals). \<open>fp_round p emin emax\<close> rounds to
  a format with \<open>p\<close> significant bits and normal exponents from \<open>emin\<close> to \<open>emax\<close>; a
  result of magnitude \<open>2^(emax+1)\<close> or more is an infinity.
\<close>

definition rne :: "real \<Rightarrow> int" where
  "rne q =
     (let f = \<lfloor>q\<rfloor>; d = q - of_int f
      in if d < 1 / 2 then f else if 1 / 2 < d then f + 1 else if even f then f else f + 1)"

fun exp_search :: "nat \<Rightarrow> real \<Rightarrow> int \<Rightarrow> int" where
  "exp_search 0 a e = e"
| "exp_search (Suc n) a e = (if 2 powi (e + 1) \<le> a then exp_search n a (e + 1) else e)"

definition fp_round :: "nat \<Rightarrow> int \<Rightarrow> int \<Rightarrow> real \<Rightarrow> dbl" where
  "fp_round p emin emax x =
     (if x = 0 then Fin 0
      else
        let e = exp_search (nat (emax - emin)) \<bar>x\<bar> emin;
            u = 2 powi (e - (int p - 1));
            y = of_int (rne (x / u)) * u
        in if 2 powi (emax + 1) \<le> \<bar>y\<bar> then (if 0 < x then PInf else NInf) else Fin y)"

text \<open>binary64 (\<open>double\<close>) and binary32 (\<open>float\<close>).\<close>

definition round64 :: "real \<Rightarrow> dbl" where
  "round64 = fp_round 53 (- 1022) 1023"

definition round32 :: "real \<Rightarrow> dbl" where
  "round32 = fp_round 24 (- 126) 127"

fun dle :: "dbl \<Rightarrow> dbl \<Rightarrow> bool" where
  "dle NaN _ = False"
| "dle _ NaN = False"
| "dle NInf _ = True"
| "dle _ PInf = True"
| "dle PInf _ = False"
| "dle _ NInf = False"
| "dle (Fin a) (Fin b) = (a \<le> b)"

fun dlt :: "dbl \<Rightarrow> dbl \<Rightarrow> bool" where
  "dlt NaN _ = False"
| "dlt _ NaN = False"
| "dlt PInf _ = False"
| "dlt _ NInf = False"
| "dlt NInf _ = True"
| "dlt _ PInf = True"
| "dlt (Fin a) (Fin b) = (a < b)"

fun dneg :: "dbl \<Rightarrow> dbl" where
  "dneg (Fin a) = Fin (- a)"
| "dneg PInf = NInf"
| "dneg NInf = PInf"
| "dneg NaN = NaN"

fun dabs :: "dbl \<Rightarrow> dbl" where
  "dabs (Fin a) = Fin \<bar>a\<bar>"
| "dabs PInf = PInf"
| "dabs NInf = PInf"
| "dabs NaN = NaN"

text \<open>Addition in the format whose rounding is \<open>rnd\<close>: the exact sum, rounded.\<close>

fun fp_add :: "(real \<Rightarrow> dbl) \<Rightarrow> dbl \<Rightarrow> dbl \<Rightarrow> dbl" where
  "fp_add rnd NaN _ = NaN"
| "fp_add rnd _ NaN = NaN"
| "fp_add rnd (Fin a) (Fin b) = rnd (a + b)"
| "fp_add rnd PInf NInf = NaN"
| "fp_add rnd NInf PInf = NaN"
| "fp_add rnd PInf _ = PInf"
| "fp_add rnd NInf _ = NInf"
| "fp_add rnd _ PInf = PInf"
| "fp_add rnd _ NInf = NInf"

text \<open>The \<open>double\<close> operations \<open>+\<close>, \<open>-\<close>, \<open>*\<close>, \<open>/\<close> and the \<open>float\<close> subtraction.\<close>

definition dadd :: "dbl \<Rightarrow> dbl \<Rightarrow> dbl" where
  "dadd a b = fp_add round64 a b"

definition dsub :: "dbl \<Rightarrow> dbl \<Rightarrow> dbl" where
  "dsub a b = fp_add round64 a (dneg b)"

definition fsub :: "dbl \<Rightarrow> dbl \<Rightarrow> dbl" where
  "fsub a b = fp_add round32 a (dneg b)"

fun dmul :: "dbl \<Rightarrow> dbl \<Rightarrow> dbl" where
  "dmul NaN _ = NaN"
| "dmul _ NaN = NaN"
| "dmul (Fin a) (Fin b) = round64 (a * b)"
| "dmul (Fin a) PInf = (if a = 0 then NaN else if 0 < a then PInf else NInf)"
| "dmul (Fin a) NInf = (if a = 0 then NaN else if 0 < a then NInf else PInf)"
| "dmul PInf (Fin b) = (if b = 0 then NaN else if 0 < b then PInf else NInf)"
| "dmul NInf (Fin b) = (if b = 0 then NaN else if 0 < b then NInf else PInf)"
| "dmul PInf PInf = PInf"
| "dmul PInf NInf = NInf"
| "dmul NInf PInf = NInf"
| "dmul NInf NInf = PInf"

fun ddiv :: "dbl \<Rightarrow> dbl \<Rightarrow> dbl" where
  "ddiv NaN _ = NaN"
| "ddiv _ NaN = NaN"
| "ddiv (Fin a) (Fin b) =
     (if b = 0 then (if a = 0 then NaN else if 0 < a then PInf else NInf)
      else round64 (a / b))"
| "ddiv (Fin a) PInf = Fin 0"
| "ddiv (Fin a) NInf = Fin 0"
| "ddiv PInf (Fin b) = (if 0 \<le> b then PInf else NInf)"
| "ddiv NInf (Fin b) = (if 0 \<le> b then NInf else PInf)"
| "ddiv PInf PInf = NaN"
| "ddiv PInf NInf = NaN"
| "ddiv NInf PInf = NaN"
| "ddiv NInf NInf = NaN"

text \<open>
  The value a bit pattern denotes as an IEEE-754 binary32 number: sign bit 31, biased
  exponent in bits 30..23, fraction in bits 22..0. Widening to \<open>double\<close> is exact.
\<close>

definition float_val :: "float32 \<Rightarrow> dbl" where
  "float_val w =
     (let s = bit w 31;
          e = unat (drop_bit 23 w AND 0xFF);
          m = unat (w AND 0x7FFFFF)
      in if e = 255 then (if m = 0 then (if s then NInf else PInf) else NaN)
         else let mag = (if e = 0 then real m / 2 ^ 149
                         else real (2 ^ 23 + m) * 2 ^ e / 2 ^ 150)
              in Fin (if s then - mag else mag))"

section \<open>Calibration constants\<close>

definition CALIBRATION_REG_MODE :: int where
  "CALIBRATION_REG_MODE = 13"

definition CALIBRATION_REG_COEFF :: int where
  "CALIBRATION_REG_COEFF = 28"

text \<open>\<open>const float CALIBRATION_COEFF_VALUE = 12880\<close>: the binary32 pattern of 12880.\<close>

definition CALIBRATION_COEFF_VALUE :: float32 where
  "CALIBRATION_COEFF_VALUE = 0x46494000"

definition CAL_MODE_1_VALUE :: reg_word where
  "CAL_MODE_1_VALUE = 2"

definition CAL_MODE_2_VALUE :: reg_word where
  "CAL_MODE_2_VALUE = 3"

datatype CalibrationMode = CAL_MODE_NONE | CAL_MODE_1 | CAL_MODE_2 | CAL_MODE_3

section \<open>Dynamic coefficient lookup and the smart algorithm\<close>

text \<open>
  A \<open>double\<close> literal is the binary64 number nearest to the decimal written. The thresholds
  5, 10, 15, 25 and 30 are binary64 numbers themselves; the coefficients are not, so they
  are written as \<open>round64\<close> of their decimals.
\<close>

definition get_dynamic_k :: "dbl \<Rightarrow> dbl" where
  "get_dynamic_k temp =
     (if dle temp (Fin 5.0) then round64 0.0180
      else if dle temp (Fin 10.0) then round64 0.0184
      else if dle temp (Fin 15.0) then round64 0.0190
      else if dle temp (Fin 25.0) then round64 0.0190
      else if dle temp (Fin 30.0) then round64 0.0192
      else round64 0.0194)"

definition calculate_smart_ec :: "dbl \<Rightarrow> dbl \<Rightarrow> dbl" where
  "calculate_smart_ec raw_ec temp =
     (let k = get_dynamic_k temp
      in ddiv raw_ec (dadd (Fin 1.0) (dmul k (dsub temp (Fin 25.0)))))"

section \<open>Float conversion (ABCD big endian) and hex strings\<close>

text \<open>\<open>src\<close> points at two registers: \<open>src[0]\<close> is the high word, \<open>src[1]\<close> the low word.\<close>

definition modbus_get_float_abcd :: "reg_word list \<Rightarrow> float32" where
  "modbus_get_float_abcd src =
     (let i = push_bit 16 (ucast (src ! 0) :: 32 word) OR ucast (src ! 1)
      in i)"

text \<open>
  Modelled from the spec: \<open>modbus_set_float_abcd\<close> is a function of the Modbus library and
  is not part of the source file. The specification's \<open>encode\<close> reinterprets the 32-bit
  pattern of the value; \<open>word0\<close> is its high 16 bits and \<open>word1\<close> its low 16 bits.
\<close>

definition modbus_set_float_abcd :: "float32 \<Rightarrow> reg_word list" where
  "modbus_set_float_abcd f = [ucast (drop_bit 16 f), ucast f]"

definition hex_digit :: "nat \<Rightarrow> char" where
  "hex_digit d = ''0123456789ABCDEF'' ! d"

definition hex4 :: "reg_word \<Rightarrow> string" where
  "hex4 w = map (\<lambda>i. hex_digit (unat (drop_bit i w AND 0xF))) [12, 8, 4, 0]"

definition to_hex_string :: "reg_word \<Rightarrow> reg_word \<Rightarrow> string" where
  "to_hex_string reg_high reg_low = hex4 reg_high @ hex4 reg_low"

section \<open>The Modbus library and the outside world\<close>

text \<open>
  A Modbus context as the program configures it. \<open>modbus_new_rtu\<close> starts from the
  library's defaults for the slave address and the response timeout (seconds and
  microseconds); the program overwrites both before it connects.
\<close>

record modbus_t =
  device :: string
  baud :: int
  parity :: char
  data_bit :: int
  stop_bit :: int
  slave :: int
  response_timeout :: "nat \<times> nat"

text \<open>The library calls whose outcome the serial line and the sensor decide.\<close>

datatype request =
    NewRtu string int char int int
  | Connect modbus_t
  | ReadRegisters modbus_t int nat
  | WriteRegister modbus_t int reg_word
  | WriteRegisters modbus_t int "reg_word list"

text \<open>
  \<open>Failed\<close> is the library's \<open>-1\<close> (or \<open>NULL\<close> for \<open>modbus_new_rtu\<close>);
  \<open>Done ws\<close> is success, carrying the registers a read returned.
\<close>

datatype reply = Failed | Done "reg_word list"

text \<open>What the program prints, one constructor per message of the source.\<close>

datatype msg =
    ScanningPorts
  | FoundSensor string
  | WriteSending int reg_word
  | WriteRegisterFailed int
  | VerifyReadBack int reg_word
  | WriteFloatSending int float32 string
  | WriteFloatFailed int
  | VerifyFloatReadBack int float32 string
  | WriteVerified
  | ReadBackDiffers
  | CouldNotVerify
  | CalibrationSkipped
  | CalibrationBanner CalibrationMode
  | Mode1Writing
  | Mode2WritingCoefficient
  | Mode2WritingMode
  | Mode3Testing
  | Mode3Success
  | Mode3Failed
  | CalibrationCompleted CalibrationMode
  | CalibrationFailed
  | CalibrationFailedContinuing
  | SensorNotFound
  | CreateContextFailed
  | ConnectionFailed
  | ConnectedTo string
  | FailedReadTemperature
  | FailedReadRawEC
  | FailedReadSensorEC

text \<open>One row of the CSV file and the arguments of one dashboard refresh.\<close>

record csv_row =
  csv_temp :: dbl
  csv_hex_temp :: string
  csv_raw_ec :: dbl
  csv_hex_raw_ec :: string
  csv_sensor_ec :: dbl
  csv_smart_ec :: dbl
  csv_deviation :: dbl

record dashboard =
  dash_temp :: dbl
  dash_raw_ec :: dbl
  dash_sensor_ec :: dbl
  dash_smart_ec :: dbl
  dash_k_used :: dbl
  dash_sample_count :: int
  dash_port :: string
  dash_hex_temp :: string
  dash_hex_raw_ec :: string

text \<open>
  Everything the program does to the outside world, in the order it does it. Sleeps are in
  microseconds. The timestamp a CSV row and the dashboard carry comes from the clock and is
  left out.
\<close>

datatype event =
    Call request reply
  | Close modbus_t
  | Free modbus_t
  | Sleep nat
  | Out msg
  | Err msg
  | Dashboard dashboard
  | CsvRow csv_row

type_synonym world = "event list"

text \<open>
  The environment answers a request knowing everything that happened before it, so any
  deterministic line and device behaviour is an environment.
\<close>

type_synonym env = "world \<Rightarrow> request \<Rightarrow> reply"

definition call :: "env \<Rightarrow> request \<Rightarrow> world \<Rightarrow> reply \<times> world" where
  "call env rq w = (let r = env w rq in (r, w @ [Call rq r]))"

definition modbus_new_rtu ::
  "env \<Rightarrow> string \<Rightarrow> int \<Rightarrow> char \<Rightarrow> int \<Rightarrow> int \<Rightarrow> world \<Rightarrow> modbus_t option \<times> world" where
  "modbus_new_rtu env dev bd par db sb w =
     (case call env (NewRtu dev bd par db sb) w of
        (Failed, w') \<Rightarrow> (None, w')
      | (Done _, w') \<Rightarrow>
          (Some \<lparr>device = dev, baud = bd, parity = par, data_bit = db, stop_bit = sb,
                 slave = - 1, response_timeout = (0, 500000)\<rparr>, w'))"

definition modbus_set_slave :: "modbus_t \<Rightarrow> int \<Rightarrow> modbus_t" where
  "modbus_set_slave ctx s = ctx\<lparr>slave := s\<rparr>"

definition modbus_set_response_timeout :: "modbus_t \<Rightarrow> nat \<Rightarrow> nat \<Rightarrow> modbus_t" where
  "modbus_set_response_timeout ctx sec usec = ctx\<lparr>response_timeout := (sec, usec)\<rparr>"

text \<open>\<open>True\<close> when the connection is established (the call did not return \<open>-1\<close>).\<close>

definition modbus_connect :: "env \<Rightarrow> modbus_t \<Rightarrow> world \<Rightarrow> bool \<times> world" where
  "modbus_connect env ctx w =
     (case call env (Connect ctx) w of (r, w') \<Rightarrow> (r \<noteq> Failed, w'))"

definition modbus_close :: "modbus_t \<Rightarrow> world \<Rightarrow> world" where
  "modbus_close ctx w = w @ [Close ctx]"

definition modbus_free :: "modbus_t \<Rightarrow> world \<Rightarrow> world" where
  "modbus_free ctx w = w @ [Free ctx]"

text \<open>
  A successful read fills the destination with exactly \<open>nb\<close> registers; an answer of any
  other length is a malformed response and counts as a failure.
\<close>

definition modbus_read_registers ::
  "env \<Rightarrow> modbus_t \<Rightarrow> int \<Rightarrow> nat \<Rightarrow> world \<Rightarrow> reg_word list option \<times> world" where
  "modbus_read_registers env ctx addr nb w =
     (case call env (ReadRegisters ctx addr nb) w of
        (Done ws, w') \<Rightarrow> (if length ws = nb then Some ws else None, w')
      | (Failed, w') \<Rightarrow> (None, w'))"

definition modbus_write_register ::
  "env \<Rightarrow> modbus_t \<Rightarrow> int \<Rightarrow> reg_word \<Rightarrow> world \<Rightarrow> bool \<times> world" where
  "modbus_write_register env ctx addr v w =
     (case call env (WriteRegister ctx addr v) w of (r, w') \<Rightarrow> (r \<noteq> Failed, w'))"

definition modbus_write_registers ::
  "env \<Rightarrow> modbus_t \<Rightarrow> int \<Rightarrow> reg_word list \<Rightarrow> world \<Rightarrow> bool \<times> world" where
  "modbus_write_registers env ctx addr vs w =
     (case call env (WriteRegisters ctx addr vs) w of (r, w') \<Rightarrow> (r \<noteq> Failed, w'))"

definition print_out :: "msg \<Rightarrow> world \<Rightarrow> world" where
  "print_out m w = w @ [Out m]"

definition print_err :: "msg \<Rightarrow> world \<Rightarrow> world" where
  "print_err m w = w @ [Err m]"

definition usleep :: "nat \<Rightarrow> world \<Rightarrow> world" where
  "usleep us w = w @ [Sleep us]"

definition sleep :: "nat \<Rightarrow> world \<Rightarrow> world" where
  "sleep s w = w @ [Sleep (s * 1000000)]"

section \<open>Port auto-discovery\<close>

fun digits :: "nat \<Rightarrow> string" where
  "digits n =
     (if n < 10 then [''0123456789'' ! n]
      else digits (n div 10) @ [''0123456789'' ! (n mod 10)])"

definition to_string :: "nat \<Rightarrow> string" where
  "to_string i = digits i"

text \<open>The list \<open>ports\<close> as the two \<open>for\<close> loops of \<open>find_sensor_port\<close> fill it.\<close>

definition candidate_ports :: "string list" where
  "candidate_ports =
     map (\<lambda>i. ''/dev/ttyS'' @ to_string i) [0..<21] @
     concat (map (\<lambda>i. [''/dev/ttyUSB'' @ to_string i, ''/dev/ttyACM'' @ to_string i]) [0..<5])"

text \<open>
  The scan loop over \<open>ports\<close>. The empty string is the source's "not found" result.
\<close>

fun scan_ports :: "env \<Rightarrow> string list \<Rightarrow> world \<Rightarrow> string \<times> world" where
  "scan_ports env [] w = ('''', w)"
| "scan_ports env (port # ports) w =
     (case modbus_new_rtu env port 9600 CHR ''N'' 8 1 w of
        (None, w1) \<Rightarrow> scan_ports env ports w1
      | (Some ctx0, w1) \<Rightarrow>
          (let ctx = modbus_set_response_timeout (modbus_set_slave ctx0 4) 0 100000
           in case modbus_connect env ctx w1 of
                (True, w2) \<Rightarrow>
                  (case modbus_read_registers env ctx 60 2 w2 of
                     (Some test_reg, w3) \<Rightarrow>
                       (port, modbus_free ctx (modbus_close ctx (print_out (FoundSensor port) w3)))
                   | (None, w3) \<Rightarrow>
                       scan_ports env ports (modbus_free ctx (modbus_close ctx w3)))
              | (False, w2) \<Rightarrow> scan_ports env ports (modbus_free ctx w2)))"

definition find_sensor_port :: "env \<Rightarrow> world \<Rightarrow> string \<times> world" where
  "find_sensor_port env w = scan_ports env candidate_ports (print_out ScanningPorts w)"

section \<open>Register writes with read-back\<close>

definition write_integer_register ::
  "env \<Rightarrow> modbus_t \<Rightarrow> int \<Rightarrow> reg_word \<Rightarrow> world \<Rightarrow> bool \<times> world" where
  "write_integer_register env ctx reg_addr val w =
     (case modbus_write_register env ctx reg_addr val (print_out (WriteSending reg_addr val) w) of
        (False, w1) \<Rightarrow> (False, print_err (WriteRegisterFailed reg_addr) w1)
      | (True, w1) \<Rightarrow>
          (True,
           case modbus_read_registers env ctx reg_addr 1 w1 of
             (Some verify, w2) \<Rightarrow>
               (let verify_value = verify ! 0;
                    w3 = print_out (VerifyReadBack reg_addr verify_value) w2
                in if verify_value = val then print_out WriteVerified w3
                   else print_err ReadBackDiffers w3)
           | (None, w2) \<Rightarrow> print_err CouldNotVerify w2))"

text \<open>The \<open>float\<close> literal \<open>0.001f\<close>: the binary32 number nearest to 0.001.\<close>

definition verify_epsilon :: float32 where
  "verify_epsilon = 0x3A83126F"

definition write_float_register ::
  "env \<Rightarrow> modbus_t \<Rightarrow> int \<Rightarrow> float32 \<Rightarrow> world \<Rightarrow> bool \<times> world" where
  "write_float_register env ctx reg_addr val w =
     (let reg_data = modbus_set_float_abcd val;
          w0 = print_out (WriteFloatSending reg_addr val
                 (to_hex_string (reg_data ! 0) (reg_data ! 1))) w
      in case modbus_write_registers env ctx reg_addr reg_data w0 of
           (False, w1) \<Rightarrow> (False, print_err (WriteFloatFailed reg_addr) w1)
         | (True, w1) \<Rightarrow>
             (True,
              case modbus_read_registers env ctx reg_addr 2 (usleep 100000 w1) of
                (Some verify_data, w2) \<Rightarrow>
                  (let read_back = modbus_get_float_abcd verify_data;
                       w3 = print_out (VerifyFloatReadBack reg_addr read_back
                              (to_hex_string (verify_data ! 0) (verify_data ! 1))) w2
                   in if dlt (dabs (fsub (float_val read_back) (float_val val)))
                             (float_val verify_epsilon)
                      then print_out WriteVerified w3
                      else print_err ReadBackDiffers w3)
              | (None, w2) \<Rightarrow> print_err CouldNotVerify w2))"

section \<open>The calibration sequence\<close>

definition execute_calibration ::
  "env \<Rightarrow> modbus_t \<Rightarrow> CalibrationMode \<Rightarrow> world \<Rightarrow> bool \<times> world" where
  "execute_calibration env ctx mode w =
     (if mode = CAL_MODE_NONE then (True, print_out CalibrationSkipped w)
      else
        let w0 = print_out (CalibrationBanner mode) w;
            (success, w1) =
              (if mode = CAL_MODE_1 then
                 write_integer_register env ctx CALIBRATION_REG_MODE CAL_MODE_1_VALUE
                   (print_out Mode1Writing w0)
               else if mode = CAL_MODE_2 then
                 (case write_float_register env ctx CALIBRATION_REG_COEFF
                         CALIBRATION_COEFF_VALUE (print_out Mode2WritingCoefficient w0) of
                    (True, wa) \<Rightarrow>
                      write_integer_register env ctx CALIBRATION_REG_MODE CAL_MODE_2_VALUE
                        (print_out Mode2WritingMode wa)
                  | (False, wa) \<Rightarrow> (False, wa))
               else if mode = CAL_MODE_3 then
                 (case write_integer_register env ctx 16 190 (print_out Mode3Testing w0) of
                    (True, wa) \<Rightarrow> (True, print_out Mode3Success wa)
                  | (False, wa) \<Rightarrow> (False, print_out Mode3Failed wa))
               else (True, w0));
            w2 = (if success then print_out (CalibrationCompleted mode) w1
                  else print_err CalibrationFailed w1)
        in (success, sleep 1 w2))"

section \<open>The main program\<close>

text \<open>
  Steps 1 and 2 of \<open>main\<close>: discovery, then the session connection. The result is the
  exit code \<open>-1\<close> or the connected session context with its port. The diagnostic monitor
  and the choice of the calibration mode, which follow, talk to the terminal and are not
  modelled; the mode is an argument of \<open>main_calibrate\<close>.
\<close>

definition main_connect :: "env \<Rightarrow> world \<Rightarrow> (int + modbus_t \<times> string) \<times> world" where
  "main_connect env w =
     (case find_sensor_port env w of
        (port, w1) \<Rightarrow>
          if port = [] then (Inl (- 1), print_err SensorNotFound w1)
          else
            (case modbus_new_rtu env port 9600 CHR ''N'' 8 1 w1 of
               (None, w2) \<Rightarrow> (Inl (- 1), print_err CreateContextFailed w2)
             | (Some ctx0, w2) \<Rightarrow>
                 (let ctx = modbus_set_response_timeout (modbus_set_slave ctx0 4) 1 0
                  in case modbus_connect env ctx w2 of
                       (False, w3) \<Rightarrow>
                         (Inl (- 1), modbus_free ctx (print_err ConnectionFailed w3))
                     | (True, w3) \<Rightarrow> (Inr (ctx, port), print_out (ConnectedTo port) w3))))"

text \<open>Step 2.7 of \<open>main\<close>: a failed calibration is reported and the program goes on.\<close>

definition main_calibrate :: "env \<Rightarrow> modbus_t \<Rightarrow> CalibrationMode \<Rightarrow> world \<Rightarrow> world" where
  "main_calibrate env ctx cal_mode w =
     (case execute_calibration env ctx cal_mode w of
        (ok, w1) \<Rightarrow> sleep 1 (if ok then w1 else print_err CalibrationFailedContinuing w1))"

text \<open>
  The variables of \<open>main\<close> that live across iterations of the acquisition loop. The counter
  is a C \<open>int\<close>; its overflow after \<open>2^31\<close> iterations is not modelled.
\<close>

record loop_vars =
  loop_count :: int
  hex_temp :: string
  hex_raw_ec :: string

text \<open>One iteration of the \<open>while (true)\<close> loop of step 4.\<close>

definition sampling_cycle ::
  "env \<Rightarrow> modbus_t \<Rightarrow> string \<Rightarrow> loop_vars \<Rightarrow> world \<Rightarrow> loop_vars \<times> world" where
  "sampling_cycle env ctx port vs w =
     (let vs0 = vs\<lparr>loop_count := loop_count vs + 1\<rparr>
      in case modbus_read_registers env ctx 60 2 w of
           (None, w1) \<Rightarrow> (vs0, sleep 1 (print_err FailedReadTemperature w1))
         | (Some reg_t, w1) \<Rightarrow>
             (let vs1 = vs0\<lparr>hex_temp := to_hex_string (reg_t ! 0) (reg_t ! 1)\<rparr>;
                  temp = float_val (modbus_get_float_abcd reg_t)
              in case modbus_read_registers env ctx 45 2 w1 of
                   (None, w2) \<Rightarrow> (vs1, sleep 1 (print_err FailedReadRawEC w2))
                 | (Some reg_r, w2) \<Rightarrow>
                     (let vs2 = vs1\<lparr>hex_raw_ec := to_hex_string (reg_r ! 0) (reg_r ! 1)\<rparr>;
                          raw_ec = float_val (modbus_get_float_abcd reg_r)
                      in case modbus_read_registers env ctx 41 2 w2 of
                           (None, w3) \<Rightarrow> (vs2, sleep 1 (print_err FailedReadSensorEC w3))
                         | (Some reg_s, w3) \<Rightarrow>
                             (let sensor_ec = float_val (modbus_get_float_abcd reg_s);
                                  smart_ec = calculate_smart_ec raw_ec temp;
                                  k_used = get_dynamic_k temp;
                                  deviation = dsub sensor_ec smart_ec;
                                  w4 = w3 @ [Dashboard
                                    \<lparr>dash_temp = temp, dash_raw_ec = raw_ec,
                                     dash_sensor_ec = sensor_ec, dash_smart_ec = smart_ec,
                                     dash_k_used = k_used,
                                     dash_sample_count = loop_count vs2,
                                     dash_port = port, dash_hex_temp = hex_temp vs2,
                                     dash_hex_raw_ec = hex_raw_ec vs2\<rparr>];
                                  w5 = w4 @ [CsvRow
                                    \<lparr>csv_temp = temp, csv_hex_temp = hex_temp vs2,
                                     csv_raw_ec = raw_ec, csv_hex_raw_ec = hex_raw_ec vs2,
                                     csv_sensor_ec = sensor_ec, csv_smart_ec = smart_ec,
                                     csv_deviation = deviation\<rparr>]
                              in (vs2, sleep 1 w5)))))"

text \<open>
  The loop has no exit: the source never leaves \<open>while (true)\<close>. \<open>sampling_loop n\<close> is the
  state after the first \<open>n\<close> iterations.
\<close>

fun sampling_loop ::
  "nat \<Rightarrow> env \<Rightarrow> modbus_t \<Rightarrow> string \<Rightarrow> loop_vars \<Rightarrow> world \<Rightarrow> loop_vars \<times> world" where
  "sampling_loop 0 env ctx port vs w = (vs, w)"
| "sampling_loop (Suc n) env ctx port vs w =
     (case sampling_cycle env ctx port vs w of
        (vs', w') \<Rightarrow> sampling_loop n env ctx port vs' w')"

text \<open>
  The run of \<open>main\<close> with its first \<open>n\<close> iterations of the acquisition loop, for a chosen
  calibration mode: steps 1 and 2, the calibration, then the loop. When step 1 or 2 fails
  the program has exited and the run ends there.
\<close>

definition main_run :: "nat \<Rightarrow> CalibrationMode \<Rightarrow> env \<Rightarrow> world" where
  "main_run n cal_mode env =
     (case main_connect env [] of
        (Inl code, w) \<Rightarrow> w
      | (Inr (ctx, port), w) \<Rightarrow>
          snd (sampling_loop n env ctx port
                 \<lparr>loop_count = 0, hex_temp = [], hex_raw_ec = []\<rparr>
                 (main_calibrate env ctx cal_mode w)))"

section \<open>Observations on a run\<close>

text \<open>
  The connections that are open after an event: a successful \<open>modbus_connect\<close> opens one
  and \<open>modbus_close\<close> closes it.
\<close>

fun step_open :: "modbus_t list \<Rightarrow> event \<Rightarrow> modbus_t list" where
  "step_open os (Call (Connect c) (Done ws)) = c # os"
| "step_open os (Close c) = remove1 c os"
| "step_open os e = os"

definition open_after :: "world \<Rightarrow> modbus_t list" where
  "open_after w = foldl step_open [] w"

fun is_new_rtu :: "event \<Rightarrow> bool" where
  "is_new_rtu (Call (NewRtu dev bd par db sb) r) = True"
| "is_new_rtu e = False"

text \<open>
  \<open>one_at_a_time os w\<close>: starting with the connections \<open>os\<close> open, at every instant of the
  run \<open>w\<close> at most one connection is open, and none is open whenever a new context is
  created for a port.
\<close>

fun one_at_a_time :: "modbus_t list \<Rightarrow> world \<Rightarrow> bool" where
  "one_at_a_time os [] = (length os \<le> 1)"
| "one_at_a_time os (e # es) =
     ((if is_new_rtu e then os = [] else length os \<le> 1) \<and> one_at_a_time (step_open os e) es)"

text \<open>
  \<open>answered_by env w ev\<close>: the events \<open>ev\<close> continue the history \<open>w\<close> on the transport
  \<open>env\<close>, that is, every library call logged in \<open>ev\<close> carries the answer \<open>env\<close> gives to
  that request after everything logged before it.
\<close>

fun answered_by :: "env \<Rightarrow> world \<Rightarrow> event list \<Rightarrow> bool" where
  "answered_by env w [] = True"
| "answered_by env w (Call rq r # es) = (r = env w rq \<and> answered_by env (w @ [Call rq r]) es)"
| "answered_by env w (e # es) = answered_by env (w @ [e]) es"

text \<open>Events that neither create a context nor open or close a connection.\<close>

fun is_quiet :: "event \<Rightarrow> bool" where
  "is_quiet (Call (NewRtu dev bd par db sb) r) = False"
| "is_quiet (Call (Connect c) r) = False"
| "is_quiet (Close c) = False"
| "is_quiet e = True"

text \<open>The devices for which a context was requested, in order.\<close>

fun attempt_of :: "event \<Rightarrow> string list" where
  "attempt_of (Call (NewRtu dev bd par db sb) r) = [dev]"
| "attempt_of e = []"

definition attempts :: "world \<Rightarrow> string list" where
  "attempts w = concat (map attempt_of w)"

text \<open>The outcome of a register read, as the program sees it.\<close>

fun read_result :: "nat \<Rightarrow> reply \<Rightarrow> reg_word list option" where
  "read_result nb Failed = None"
| "read_result nb (Done ws) = (if length ws = nb then Some ws else None)"

text \<open>The register reads of a run: context, address, count and outcome.\<close>

fun read_of :: "event \<Rightarrow> (modbus_t \<times> int \<times> nat \<times> reg_word list option) list" where
  "read_of (Call (ReadRegisters c a n) r) = [(c, a, n, read_result n r)]"
| "read_of e = []"

definition reads :: "world \<Rightarrow> (modbus_t \<times> int \<times> nat \<times> reg_word list option) list" where
  "reads w = concat (map read_of w)"

text \<open>The devices that answered a read, in order.\<close>

definition answered :: "world \<Rightarrow> string list" where
  "answered w = map (\<lambda>(c, a, n, r). device c) (filter (\<lambda>(c, a, n, r). r \<noteq> None) (reads w))"

text \<open>The raw register writes of a run with the library's answer.\<close>

fun write_of :: "event \<Rightarrow> (request \<times> reply) list" where
  "write_of (Call (WriteRegister c a v) r) = [(WriteRegister c a v, r)]"
| "write_of (Call (WriteRegisters c a vs) r) = [(WriteRegisters c a vs, r)]"
| "write_of e = []"

definition writes :: "world \<Rightarrow> (request \<times> reply) list" where
  "writes w = concat (map write_of w)"

fun is_record :: "event \<Rightarrow> bool" where
  "is_record (Dashboard d) = True"
| "is_record (CsvRow r) = True"
| "is_record e = False"

fun is_sleep :: "event \<Rightarrow> bool" where
  "is_sleep (Sleep us) = True"
| "is_sleep e = False"

fun is_failed_read :: "event \<Rightarrow> bool" where
  "is_failed_read (Call (ReadRegisters c a n) r) = (read_result n r = None)"
| "is_failed_read e = False"


section \<open>Simulated transports\<close>

text \<open>
  A line on which every port can be opened, the devices in \<open>responding\<close> answer every read
  with zeros, and single and multiple register writes get the fixed answers \<open>w1\<close> and
  \<open>wn\<close>.
\<close>

definition sim_env :: "string list \<Rightarrow> reply \<Rightarrow> reply \<Rightarrow> env" where
  "sim_env responding w1 wn w rq =
     (case rq of
        NewRtu dev bd par db sb \<Rightarrow> Done []
      | Connect c \<Rightarrow> Done []
      | ReadRegisters c a n \<Rightarrow>
          (if device c \<in> set responding then Done (replicate n 0) else Failed)
      | WriteRegister c a v \<Rightarrow> w1
      | WriteRegisters c a vs \<Rightarrow> wn)"

text \<open>
  A line on which every call succeeds and every read returns the first registers of \<open>ws\<close>.
\<close>

definition fixed_env :: "reg_word list \<Rightarrow> env" where
  "fixed_env ws w rq =
     (case rq of
        ReadRegisters c a n \<Rightarrow> Done (take n ws)
      | _ \<Rightarrow> Done [])"

text \<open>The session context \<open>main\<close> sets up for a port.\<close>

definition session_ctx :: "string \<Rightarrow> modbus_t" where
  "session_ctx port =
     \<lparr>device = port, baud = 9600, parity = CHR ''N'', data_bit = 8, stop_bit = 1,
      slave = 4, response_timeout = (1, 0)\<rparr>"

text \<open>
  A line on which the sensor starts to answer reads only once \<open>k\<close> events have happened;
  everything else succeeds.
\<close>

definition late_env :: "nat \<Rightarrow> env" where
  "late_env k w rq =
     (case rq of
        ReadRegisters c a n \<Rightarrow> (if k \<le> length w then Done (replicate n 0) else Failed)
      | _ \<Rightarrow> Done [])"

section \<open>One iteration of the scan loop\<close>

text \<open>The context a probe of \<open>find_sensor_port\<close> works with.\<close>

definition probe_ctx :: "string \<Rightarrow> modbus_t" where
  "probe_ctx port =
     \<lparr>device = port, baud = 9600, parity = CHR ''N'', data_bit = 8, stop_bit = 1,
      slave = 4, response_timeout = (0, 100000)\<rparr>"

text \<open>
  The events one iteration of the scan loop adds for the port \<open>q\<close>, and whether the
  handshake read succeeded. Lemma \<open>scan_ports_Cons\<close> shows that \<open>scan_ports\<close> does exactly
  this and then returns \<open>q\<close> or goes on with the next port.
\<close>

definition probe_events :: "env \<Rightarrow> string \<Rightarrow> world \<Rightarrow> bool \<times> event list" where
  "probe_events env q w =
     (let r1 = env w (NewRtu q 9600 CHR ''N'' 8 1);
          e1 = [Call (NewRtu q 9600 CHR ''N'' 8 1) r1]
      in if r1 = Failed then (False, e1)
         else
           let ctx = probe_ctx q;
               r2 = env (w @ e1) (Connect ctx);
               e2 = e1 @ [Call (Connect ctx) r2]
           in if r2 = Failed then (False, e2 @ [Free ctx])
              else
                let r3 = env (w @ e2) (ReadRegisters ctx 60 2);
                    e3 = e2 @ [Call (ReadRegisters ctx 60 2) r3]
                in if read_result 2 r3 = None then (False, e3 @ [Close ctx, Free ctx])
                   else (True, e3 @ [Out (FoundSensor q), Close ctx, Free ctx]))"

text \<open>
  The specification's \<open>compensate\<close>, in its own words: a degenerate denominator (zero or
  negative) is a \<open>DomainError\<close>, any other input gives the quotient. It is compared with
  \<open>calculate_smart_ec\<close> below.
\<close>

datatype outcome = DomainError | Value dbl

definition spec_compensate :: "real \<Rightarrow> real \<Rightarrow> outcome" where
  "spec_compensate raw_ec temp =
     (case get_dynamic_k (Fin temp) of
        Fin k \<Rightarrow>
          (let d = 1 + k * (temp - 25)
           in if d \<le> 0 then DomainError else Value (Fin (raw_ec / d)))
      | _ \<Rightarrow> DomainError)"

section \<open>Rounding\<close>

lemma exp_search_stop: "a < 2 powi (e + 1) \<Longrightarrow> exp_search n a e = e"
  by (cases n) simp_all

lemma exp_search_eq:
  "e0 \<le> e \<Longrightarrow> 2 powi e \<le> a \<Longrightarrow> a < 2 powi (e + 1) \<Longrightarrow> nat (e - e0) \<le> n \<Longrightarrow>
   exp_search n a e0 = e"
proof (induction n arbitrary: e0)
  case 0
  then have "e0 = e" by simp
  then show ?case by simp
next
  case (Suc n)
  show ?case
  proof (cases "e0 = e")
    case True
    with Suc.prems show ?thesis by (simp add: exp_search_stop)
  next
    case False
    with Suc.prems have lt: "e0 + 1 \<le> e" by simp
    have "(2::real) powi (e0 + 1) \<le> 2 powi e"
      using lt by (intro power_int_increasing) simp_all
    with Suc.prems have step: "2 powi (e0 + 1) \<le> a" by simp
    have "exp_search n a (e0 + 1) = e"
      using Suc.prems lt by (intro Suc.IH) simp_all
    with step show ?thesis by simp
  qed
qed

lemma exp_search_top: "2 powi (e0 + int n) \<le> a \<Longrightarrow> exp_search n a e0 = e0 + int n"
proof (induction n arbitrary: e0)
  case 0
  then show ?case by simp
next
  case (Suc n)
  have "(2::real) powi (e0 + 1) \<le> 2 powi (e0 + int (Suc n))"
    by (intro power_int_increasing) simp_all
  with Suc.prems have step: "2 powi (e0 + 1) \<le> a" by simp
  from Suc.prems have "2 powi (e0 + 1 + int n) \<le> a"
    by (simp add: add.commute add.left_commute)
  from Suc.IH [OF this] step show ?case by simp
qed

text \<open>
  How a rounding is evaluated: with the binary exponent \<open>e\<close> of \<open>x\<close> at hand, the result
  is the rounded multiple \<open>n\<close> of the unit in the last place.
\<close>

lemma fp_round_finite:
  assumes "2 powi e \<le> \<bar>x\<bar>" "\<bar>x\<bar> < 2 powi (e + 1)" "emin \<le> e" "e \<le> emax"
    and "rne (x / 2 powi (e - (int p - 1))) = n"
    and "\<bar>real_of_int n * 2 powi (e - (int p - 1))\<bar> < 2 powi (emax + 1)"
  shows "fp_round p emin emax x = Fin (real_of_int n * 2 powi (e - (int p - 1)))"
proof -
  have pos: "(0::real) < 2 powi e" by simp
  have nz: "x \<noteq> 0"
  proof
    assume "x = 0"
    with assms(1) have "(2::real) powi e \<le> 0" by simp
    with pos show False by linarith
  qed
  have ex: "exp_search (nat (emax - emin)) \<bar>x\<bar> emin = e"
    using assms(1-4) by (intro exp_search_eq) simp_all
  show ?thesis
    using nz assms(5,6) by (simp add: fp_round_def ex Let_def)
qed

lemma round64_finite:
  assumes "2 powi e \<le> \<bar>x\<bar>" "\<bar>x\<bar> < 2 powi (e + 1)" "- 1022 \<le> e" "e \<le> 1023"
    and "rne (x / 2 powi (e - 52)) = n"
    and "\<bar>real_of_int n * 2 powi (e - 52)\<bar> < 2 powi 1024"
  shows "round64 x = Fin (real_of_int n * 2 powi (e - 52))"
  using fp_round_finite [of e x "- 1022" 1023 53 n] assms
  by (simp add: round64_def)

lemma round32_finite:
  assumes "2 powi e \<le> \<bar>x\<bar>" "\<bar>x\<bar> < 2 powi (e + 1)" "- 126 \<le> e" "e \<le> 127"
    and "rne (x / 2 powi (e - 23)) = n"
    and "\<bar>real_of_int n * 2 powi (e - 23)\<bar> < 2 powi 128"
  shows "round32 x = Fin (real_of_int n * 2 powi (e - 23))"
  using fp_round_finite [of e x "- 126" 127 24 n] assms
  by (simp add: round32_def)

lemma rne_lower: "real_of_int m \<le> q \<Longrightarrow> m \<le> rne q"
proof -
  assume "real_of_int m \<le> q"
  then have "m \<le> \<lfloor>q\<rfloor>" by (simp add: le_floor_iff)
  then show ?thesis by (simp add: rne_def Let_def)
qed

text \<open>A positive number of magnitude \<open>2^1024\<close> or more rounds to \<open>+\<infinity>\<close>.\<close>

lemma round64_overflow:
  assumes "2 powi 1024 \<le> x"
  shows "round64 x = PInf"
proof -
  have big: "(0::real) < 2 powi 1024" by simp
  with assms have pos: "0 < x" by linarith
  have "(2::real) powi 1023 \<le> 2 powi 1024"
    by (intro power_int_increasing) simp_all
  with assms have "2 powi (- 1022 + int 2045) \<le> x"
    by simp
  from exp_search_top [OF this]
  have ex: "exp_search 2045 x (- 1022) = 1023"
    by simp
  have "(2::real) powi 1024 = 2 ^ 53 * 2 powi 971"
    by (simp add: power_int_add [of 2 53 971, simplified])
  with assms have "real_of_int (2 ^ 53) \<le> x / 2 powi 971"
    by (simp add: pos_le_divide_eq)
  then have "2 ^ 53 \<le> rne (x / 2 powi 971)"
    by (rule rne_lower)
  then have "real_of_int (2 ^ 53) * 2 powi 971 \<le> real_of_int (rne (x / 2 powi 971)) * 2 powi 971"
    by (intro mult_right_mono) simp_all
  then have "2 powi 1024 \<le> \<bar>real_of_int (rne (x / 2 powi 971)) * 2 powi 971\<bar>"
    using \<open>(2::real) powi 1024 = 2 ^ 53 * 2 powi 971\<close> by simp
  then show ?thesis
    using pos by (simp add: round64_def fp_round_def ex Let_def)
qed

lemma round64_0 [simp]: "round64 0 = Fin 0"
  by (simp add: round64_def fp_round_def)

lemma round32_0 [simp]: "round32 0 = Fin 0"
  by (simp add: round32_def fp_round_def)

lemma round64_1: "round64 1 = Fin 1"
  using round64_finite [of 0 1 "2 ^ 52"] by (simp add: rne_def)

lemma round64_12: "round64 12 = Fin 12"
  using round64_finite [of 3 12 "12 * 2 ^ 49"] by (simp add: rne_def)

text \<open>The coefficient literals of \<open>get_dynamic_k\<close> as binary64 numbers.\<close>

lemma k0180: "round64 0.0180 = Fin (5188146770730811 / 2 ^ 58)"
  using round64_finite [of "- 6" "0.0180" 5188146770730811] by (simp add: rne_def)

lemma k0184: "round64 0.0184 = Fin (662929865148937 / 2 ^ 55)"
  using round64_finite [of "- 6" "0.0184" 5303438921191496] by (simp add: rne_def)

lemma k0190: "round64 0.0190 = Fin (5476377146882523 / 2 ^ 58)"
  using round64_finite [of "- 6" "0.0190" 5476377146882523] by (simp add: rne_def)

lemma k0192: "round64 0.0192 = Fin (5534023222112865 / 2 ^ 58)"
  using round64_finite [of "- 6" "0.0192" 5534023222112865] by (simp add: rne_def)

lemma k0194: "round64 0.0194 = Fin (698958662167901 / 2 ^ 55)"
  using round64_finite [of "- 6" "0.0194" 5591669297343208] by (simp add: rne_def)

lemmas k_literals = k0180 k0184 k0190 k0192 k0194

lemmas k_norm = k_literals [simplified]

section \<open>The float codec\<close>

text \<open>
  C1. Decoding the encoded register pair gives back the same 32-bit pattern, for every
  pattern (finite, infinite, NaN or denormal alike). The decoder puts the first register
  into the high half and the second into the low half: the decoded pattern is
  \<open>word0 * 2^16 + word1\<close>, and encoding it again returns the two registers.
\<close>

theorem float_codec_roundtrip:
  "modbus_get_float_abcd (modbus_set_float_abcd x) = x \<and>
   unat (modbus_get_float_abcd [w0, w1]) = unat w0 * 65536 + unat w1 \<and>
   modbus_set_float_abcd (modbus_get_float_abcd [w0, w1]) = [w0, w1]"
proof (intro conjI)
  show "modbus_get_float_abcd (modbus_set_float_abcd x) = x"
    unfolding modbus_get_float_abcd_def modbus_set_float_abcd_def Let_def
    by (simp, rule bit_word_eqI) (auto simp add: bit_simps)
  have disj: "push_bit 16 (ucast w0 :: 32 word) AND ucast w1 = 0"
    by (rule bit_word_eqI) (auto simp add: bit_simps dest: bit_imp_le_length)
  have "push_bit 16 (ucast w0 :: 32 word) OR ucast w1 = push_bit 16 (ucast w0) + ucast w1"
    using disj by (simp add: disjunctive_add_eq_or)
  moreover have b0: "unat w0 < 65536" and b1: "unat w1 < 65536"
    using unsigned_less [of w0, where 'a = nat] unsigned_less [of w1, where 'a = nat]
    by simp_all
  moreover have "unat (ucast w0 :: 32 word) = unat w0" "unat (ucast w1 :: 32 word) = unat w1"
    using b0 b1 by (simp_all add: unsigned_ucast_eq take_bit_nat_eq_self)
  ultimately show "unat (modbus_get_float_abcd [w0, w1]) = unat w0 * 65536 + unat w1"
    unfolding modbus_get_float_abcd_def Let_def
    by (simp add: unat_word_ariths push_bit_eq_mult take_bit_eq_mod)
  show "modbus_set_float_abcd (modbus_get_float_abcd [w0, w1]) = [w0, w1]"
    unfolding modbus_get_float_abcd_def modbus_set_float_abcd_def Let_def
    apply simp
    apply (rule conjI; rule bit_word_eqI)
     apply (auto simp add: bit_simps dest: bit_imp_le_length)
    done
qed

section \<open>The compensation engine\<close>

lemma get_dynamic_k_Fin:
  "get_dynamic_k (Fin t) =
     (if t \<le> 5 then round64 0.0180 else if t \<le> 10 then round64 0.0184
      else if t \<le> 15 then round64 0.0190 else if t \<le> 25 then round64 0.0190
      else if t \<le> 30 then round64 0.0192 else round64 0.0194)"
  by (simp add: get_dynamic_k_def)

lemma get_dynamic_k_mono: "dle a b \<Longrightarrow> dle (get_dynamic_k a) (get_dynamic_k b)"
  by (cases a; cases b) (auto simp: get_dynamic_k_def k_norm)

lemma round64_5_01: "round64 5.01 = Fin (2820379266640773 / 2 ^ 49)"
  using round64_finite [of 2 "5.01" 5640758533281546] by (simp add: rne_def)

lemma round64_25_01: "round64 25.01 = Fin (7039689167533507 / 2 ^ 48)"
  using round64_finite [of 4 "25.01" 7039689167533507] by (simp add: rne_def)

text \<open>
  C6. On every finite temperature \<open>get_dynamic_k\<close> is the ordered lookup
  \<open>\<le>5 \<rightarrow> 0.0180\<close>, \<open>\<le>10 \<rightarrow> 0.0184\<close>, \<open>\<le>15 \<rightarrow> 0.0190\<close>, \<open>\<le>25 \<rightarrow> 0.0190\<close>,
  \<open>\<le>30 \<rightarrow> 0.0192\<close>, otherwise \<open>0.0194\<close>, each coefficient being the \<open>double\<close> that the
  literal denotes; a NaN temperature fails every comparison and gets the last value, as
  does \<open>+\<infinity>\<close>, and \<open>-\<infinity>\<close> gets the first. The function is non-decreasing in the
  temperature, and at 5.0, 5.01, 25.0 and 25.01 (as exact reals and as \<open>double\<close>
  literals) it is 0.0180, 0.0184, 0.0190 and 0.0192. The last line gives the five
  coefficients as the binary64 numbers they are.
\<close>

theorem get_dynamic_k_lookup:
  "get_dynamic_k (Fin t) =
     (if t \<le> 5 then round64 0.0180 else if t \<le> 10 then round64 0.0184
      else if t \<le> 15 then round64 0.0190 else if t \<le> 25 then round64 0.0190
      else if t \<le> 30 then round64 0.0192 else round64 0.0194) \<and>
   get_dynamic_k NaN = round64 0.0194 \<and>
   get_dynamic_k PInf = round64 0.0194 \<and>
   get_dynamic_k NInf = round64 0.0180 \<and>
   (dle a b \<longrightarrow> dle (get_dynamic_k a) (get_dynamic_k b)) \<and>
   get_dynamic_k (Fin 5.0) = round64 0.0180 \<and>
   get_dynamic_k (Fin 5.01) = round64 0.0184 \<and>
   get_dynamic_k (Fin 25.0) = round64 0.0190 \<and>
   get_dynamic_k (Fin 25.01) = round64 0.0192 \<and>
   get_dynamic_k (round64 5.01) = round64 0.0184 \<and>
   get_dynamic_k (round64 25.01) = round64 0.0192 \<and>
   round64 0.0180 = Fin (5188146770730811 / 2 ^ 58) \<and>
   round64 0.0184 = Fin (662929865148937 / 2 ^ 55) \<and>
   round64 0.0190 = Fin (5476377146882523 / 2 ^ 58) \<and>
   round64 0.0192 = Fin (5534023222112865 / 2 ^ 58) \<and>
   round64 0.0194 = Fin (698958662167901 / 2 ^ 55)"
  using get_dynamic_k_mono [of a b]
  by (simp add: get_dynamic_k_def k_norm round64_5_01 [simplified] round64_25_01 [simplified])

theorem get_dynamic_k_lookup_witness:
  "dle (Fin 5.0) (Fin 5.01) \<and> dle (get_dynamic_k (Fin 5.0)) (get_dynamic_k (Fin 5.01)) \<and>
   get_dynamic_k (Fin 5.0) = Fin (5188146770730811 / 2 ^ 58) \<and>
   get_dynamic_k (Fin 5.01) = Fin (662929865148937 / 2 ^ 55)"
  using get_dynamic_k_lookup [of 5 "Fin 5.0" "Fin 5.01"]
  by (simp add: k_norm)

lemma denominator_at_25:
  "dadd (Fin 1) (dmul (Fin k) (dsub (Fin 25) (Fin 25))) = Fin 1"
  by (simp add: dadd_def dsub_def round64_1)

text \<open>
  C9. At the reference temperature the compensation is the identity:
  \<open>calculate_smart_ec 12.0 25.0 = 12.0\<close>. This does not depend on the coefficient: with any
  \<open>k\<close> in place of the looked-up one the denominator \<open>1 + k * (25 - 25)\<close> is computed as
  exactly 1. For any finite raw EC the result is the raw EC rounded to \<open>double\<close>, which is
  the raw EC itself when it is a \<open>double\<close>.
\<close>

theorem reference_point_identity:
  "calculate_smart_ec (Fin 12.0) (Fin 25.0) = Fin 12.0 \<and>
   (\<forall>k. ddiv (Fin 12.0) (dadd (Fin 1.0) (dmul (Fin k) (dsub (Fin 25.0) (Fin 25.0)))) = Fin 12.0) \<and>
   (\<forall>k. dadd (Fin 1.0) (dmul (Fin k) (dsub (Fin 25.0) (Fin 25.0))) = Fin 1) \<and>
   (\<forall>r. calculate_smart_ec (Fin r) (Fin 25.0) = round64 r)"
  by (simp add: calculate_smart_ec_def get_dynamic_k_def k_norm denominator_at_25 round64_12)

text \<open>The computation at raw EC 12, temperature -35, operation by operation.\<close>

lemma minus35_steps:
  "round64 (- 35 + - 25) = Fin (- 60)"
  "round64 (5188146770730811 / 2 ^ 58 * - 60) = Fin (- 4863887597560135 / 2 ^ 52)"
  "round64 (1 + - 4863887597560135 / 2 ^ 52) = Fin (- 360287970189639 / 2 ^ 52)"
  "round64 (12 / (- 360287970189639 / 2 ^ 52)) = Fin (- 2638827906662405 / 2 ^ 44)"
  using round64_finite [of 5 "- 35 + - 25" "- 60 * 2 ^ 47"]
    round64_finite [of 0 "5188146770730811 / 2 ^ 58 * - 60" "- 4863887597560135"]
    round64_finite [of "- 4" "1 + - 4863887597560135 / 2 ^ 52" "- 5764607523034224"]
    round64_finite [of 7 "12 / (- 360287970189639 / 2 ^ 52)" "- 5277655813324810"]
  by (simp_all add: rne_def)

lemma calculate_smart_ec_minus35:
  "calculate_smart_ec (Fin 12) (Fin (- 35)) = Fin (- 2638827906662405 / 2 ^ 44)"
  by (simp add: calculate_smart_ec_def get_dynamic_k_def dsub_def dadd_def k_norm
        minus35_steps [simplified])

text \<open>
  The computation at the \<open>double\<close> temperature \<open>-0x1.e8e38e38e38e6p+4\<close> (about
  -30.5556): the product rounds to exactly -1 and the denominator is exactly 0.
\<close>

lemma zero_denominator_steps:
  "round64 (- 4300312144190579 / 2 ^ 47 + - 25) = Fin (- 7818749353073779 / 2 ^ 47)"
  "round64 (5188146770730811 / 2 ^ 58 * (- 7818749353073779 / 2 ^ 47)) = Fin (- 1)"
  using round64_finite [of 5 "- 4300312144190579 / 2 ^ 47 + - 25" "- 7818749353073779"]
    round64_finite [of 0 "5188146770730811 / 2 ^ 58 * (- 7818749353073779 / 2 ^ 47)" "- (2 ^ 52)"]
  by (simp_all add: rne_def)

lemma zero_denominator:
  "dadd (Fin 1.0) (dmul (get_dynamic_k (Fin (- 4300312144190579 / 2 ^ 47)))
     (dsub (Fin (- 4300312144190579 / 2 ^ 47)) (Fin 25.0))) = Fin 0"
  by (simp add: get_dynamic_k_def dsub_def dadd_def k_norm zero_denominator_steps [simplified])

text \<open>
  The computation at the \<open>double\<close> raw EC \<open>1e308\<close> and temperature -20: the denominator
  is about 0.19 and the quotient is beyond the binary64 range.
\<close>

lemma overflow_steps:
  "round64 (- 20 + - 25) = Fin (- 45)"
  "round64 (5188146770730811 / 2 ^ 58 * - 45) = Fin (- 7295831396340203 / 2 ^ 53)"
  "round64 (1 + - 7295831396340203 / 2 ^ 53) = Fin (1711367858400789 / 2 ^ 53)"
  using round64_finite [of 5 "- 20 + - 25" "- 45 * 2 ^ 47"]
    round64_finite [of "- 1" "5188146770730811 / 2 ^ 58 * - 45" "- 7295831396340203"]
    round64_finite [of "- 3" "1 + - 7295831396340203 / 2 ^ 53" 6845471433603156]
  by (simp_all add: rne_def)

lemma round64_1e308: "round64 (10 ^ 308) = Fin (5010420900022432 * 2 ^ 971)"
  using round64_finite [of 1023 "10 ^ 308" 5010420900022432] by (simp add: rne_def)

lemma calculate_smart_ec_overflow:
  "calculate_smart_ec (Fin (5010420900022432 * 2 ^ 971)) (Fin (- 20)) = PInf"
proof -
  have "(2::real) powi 1024 \<le> 5010420900022432 * 2 ^ 971 / (1711367858400789 / 2 ^ 53)"
    by simp
  from round64_overflow [OF this] show ?thesis
    by (simp add: calculate_smart_ec_def get_dynamic_k_def dsub_def dadd_def k_norm
          overflow_steps [simplified])
qed

text \<open>
  C2 as stated fails: at raw EC 12 and temperature -35 the denominator \<open>1 + k * (-60)\<close>
  is negative, the specification's \<open>compensate\<close> is a \<open>DomainError\<close>, and
  \<open>calculate_smart_ec\<close> returns a value, the \<open>double\<close> \<open>-150.00000000000028\<close>.
\<close>

theorem compensate_guard_counterexample:
  "spec_compensate 12 (- 35) = DomainError \<and>
   calculate_smart_ec (Fin 12) (Fin (- 35)) = Fin (- 2638827906662405 / 2 ^ 44) \<and>
   Value (calculate_smart_ec (Fin 12) (Fin (- 35))) \<noteq> spec_compensate 12 (- 35)"
  by (simp add: spec_compensate_def calculate_smart_ec_minus35 get_dynamic_k_def k_norm)

text \<open>
  C2 as amended. \<open>calculate_smart_ec\<close> has no guard and no error result: on every finite
  raw EC and temperature it returns the binary64 quotient of the raw EC by the computed
  denominator \<open>1 + k * (temp - 25)\<close>, each operation rounded. For a nonzero denominator,
  negative ones included, that is the rounded quotient, which is \<open>\<plusminus>\<infinity>\<close> when it is
  beyond the binary64 range; for a zero denominator it is NaN, \<open>+\<infinity>\<close> or \<open>-\<infinity>\<close> as the
  raw EC is zero, positive or negative. All of these occur: a negative denominator at
  temperature -35, an exactly zero one at the \<open>double\<close> \<open>-0x1.e8e38e38e38e6p+4\<close>, and an
  overflowing quotient at raw EC \<open>1e308\<close>, temperature -20.
\<close>

theorem calculate_smart_ec_unguarded:
  "calculate_smart_ec (Fin r) (Fin t) =
     (case dadd (Fin 1.0) (dmul (get_dynamic_k (Fin t)) (dsub (Fin t) (Fin 25.0))) of
        Fin d \<Rightarrow>
          if d = 0 then (if r = 0 then NaN else if 0 < r then PInf else NInf)
          else round64 (r / d)
      | PInf \<Rightarrow> Fin 0
      | NInf \<Rightarrow> Fin 0
      | NaN \<Rightarrow> NaN) \<and>
   calculate_smart_ec (Fin 12) (Fin (- 35)) = Fin (- 2638827906662405 / 2 ^ 44) \<and>
   calculate_smart_ec (Fin 12) (Fin (- 4300312144190579 / 2 ^ 47)) = PInf \<and>
   calculate_smart_ec (Fin (- 12)) (Fin (- 4300312144190579 / 2 ^ 47)) = NInf \<and>
   calculate_smart_ec (Fin 0) (Fin (- 4300312144190579 / 2 ^ 47)) = NaN \<and>
   round64 (10 ^ 308) = Fin (5010420900022432 * 2 ^ 971) \<and>
   calculate_smart_ec (Fin (5010420900022432 * 2 ^ 971)) (Fin (- 20)) = PInf"
proof (intro conjI)
  show "calculate_smart_ec (Fin r) (Fin t) =
     (case dadd (Fin 1.0) (dmul (get_dynamic_k (Fin t)) (dsub (Fin t) (Fin 25.0))) of
        Fin d \<Rightarrow>
          if d = 0 then (if r = 0 then NaN else if 0 < r then PInf else NInf)
          else round64 (r / d)
      | PInf \<Rightarrow> Fin 0
      | NInf \<Rightarrow> Fin 0
      | NaN \<Rightarrow> NaN)"
    unfolding calculate_smart_ec_def Let_def
    by (cases "dadd (Fin 1.0) (dmul (get_dynamic_k (Fin t)) (dsub (Fin t) (Fin 25.0)))")
       simp_all
  show "calculate_smart_ec (Fin 12) (Fin (- 35)) = Fin (- 2638827906662405 / 2 ^ 44)"
    by (rule calculate_smart_ec_minus35)
  show "calculate_smart_ec (Fin 12) (Fin (- 4300312144190579 / 2 ^ 47)) = PInf"
    unfolding calculate_smart_ec_def Let_def zero_denominator by simp
  show "calculate_smart_ec (Fin (- 12)) (Fin (- 4300312144190579 / 2 ^ 47)) = NInf"
    unfolding calculate_smart_ec_def Let_def zero_denominator by simp
  show "calculate_smart_ec (Fin 0) (Fin (- 4300312144190579 / 2 ^ 47)) = NaN"
    unfolding calculate_smart_ec_def Let_def zero_denominator by simp
  show "round64 (10 ^ 308) = Fin (5010420900022432 * 2 ^ 971)"
    by (rule round64_1e308)
  show "calculate_smart_ec (Fin (5010420900022432 * 2 ^ 971)) (Fin (- 20)) = PInf"
    by (rule calculate_smart_ec_overflow)
qed

section \<open>Verified writes\<close>

lemmas io_defs = call_def modbus_write_register_def modbus_write_registers_def
  modbus_read_registers_def print_out_def print_err_def usleep_def sleep_def Let_def

lemmas conn_defs = modbus_new_rtu_def modbus_connect_def modbus_close_def modbus_free_def
  modbus_set_slave_def modbus_set_response_timeout_def

lemma answered_by_append:
  "answered_by env w (a @ b) \<longleftrightarrow> answered_by env w a \<and> answered_by env (w @ a) b"
  by (induction env w a rule: answered_by.induct) simp_all

lemma write_integer_register_run:
  assumes "write_integer_register env ctx a v w = (acc, w')"
  shows "\<exists>ev r. w' = w @ ev \<and> answered_by env w ev \<and>
     r = env (w @ [Out (WriteSending a v)]) (WriteRegister ctx a v) \<and>
     writes ev = [(WriteRegister ctx a v, r)] \<and> acc = (r \<noteq> Failed) \<and>
     (if acc
      then \<exists>rb. reads ev = [(ctx, a, 1, rb)] \<and>
             (Out WriteVerified \<in> set ev \<longleftrightarrow> rb = Some [v]) \<and>
             (Err ReadBackDiffers \<in> set ev \<longleftrightarrow> (\<exists>x. rb = Some [x] \<and> x \<noteq> v)) \<and>
             (Err CouldNotVerify \<in> set ev \<longleftrightarrow> rb = None) \<and>
             Err (WriteRegisterFailed a) \<notin> set ev
      else reads ev = [] \<and> Err (WriteRegisterFailed a) \<in> set ev \<and>
           Out WriteVerified \<notin> set ev)"
  using assms unfolding write_integer_register_def io_defs writes_def reads_def
  by (auto split: if_splits reply.splits prod.splits bool.splits simp: length_Suc_conv)

lemma write_float_register_run:
  assumes "write_float_register env ctx a v w = (acc, w')"
  shows "\<exists>ev r. w' = w @ ev \<and> answered_by env w ev \<and>
     r = env (w @ [Out (WriteFloatSending a v
                    (to_hex_string (modbus_set_float_abcd v ! 0) (modbus_set_float_abcd v ! 1)))])
           (WriteRegisters ctx a (modbus_set_float_abcd v)) \<and>
     writes ev = [(WriteRegisters ctx a (modbus_set_float_abcd v), r)] \<and> acc = (r \<noteq> Failed) \<and>
     (if acc
      then \<exists>rb. reads ev = [(ctx, a, 2, rb)] \<and>
             (Out WriteVerified \<in> set ev \<longleftrightarrow>
                (\<exists>ws. rb = Some ws \<and>
                   dlt (dabs (fsub (float_val (modbus_get_float_abcd ws)) (float_val v)))
                       (float_val verify_epsilon))) \<and>
             (Err ReadBackDiffers \<in> set ev \<longleftrightarrow>
                (\<exists>ws. rb = Some ws \<and>
                   \<not> dlt (dabs (fsub (float_val (modbus_get_float_abcd ws)) (float_val v)))
                         (float_val verify_epsilon))) \<and>
             (Err CouldNotVerify \<in> set ev \<longleftrightarrow> rb = None) \<and>
             Err (WriteFloatFailed a) \<notin> set ev
      else reads ev = [] \<and> Err (WriteFloatFailed a) \<in> set ev \<and>
           Out WriteVerified \<notin> set ev)"
  using assms unfolding write_float_register_def io_defs writes_def reads_def
  by (auto split: if_splits reply.splits prod.splits bool.splits)

lemma verify_epsilon_value: "float_val verify_epsilon = Fin (8589935 / 2 ^ 33)"
  by (simp add: float_val_def verify_epsilon_def Let_def)

lemma coefficient_value: "float_val CALIBRATION_COEFF_VALUE = Fin 12880"
  by (simp add: float_val_def CALIBRATION_COEFF_VALUE_def Let_def)

lemma coefficient_words: "modbus_set_float_abcd CALIBRATION_COEFF_VALUE = [0x4649, 0x4000]"
  by (simp add: modbus_set_float_abcd_def CALIBRATION_COEFF_VALUE_def)

lemma coefficient_hex: "to_hex_string 0x4649 0x4000 = ''46494000''"
  by (simp add: to_hex_string_def hex4_def hex_digit_def)

lemma fsub_zero_coefficient: "fsub (Fin 0) (Fin 12880) = Fin (- 12880)"
  using round32_finite [of 13 "- 12880" "- 12880 * 2 ^ 10"]
  by (simp add: fsub_def rne_def)

text \<open>
  The subtraction of the read-back test is a binary32 subtraction and rounds before the
  comparison. For the written value \<open>0x39800001\<close> and the read-back \<open>0x3AA3126F\<close> the
  exact difference is \<open>0.001f - 2^-35\<close>, below \<open>0.001f\<close>; it rounds to \<open>0.001f\<close>, which
  is not below \<open>0.001f\<close>, so the test fails.
\<close>

lemma small_float_values:
  "float_val 0x39800001 = Fin (8388609 / 2 ^ 35)"
  "float_val 0x3AA3126F = Fin (10687087 / 2 ^ 33)"
  by (simp_all add: float_val_def Let_def)

lemma fsub_rounds_up:
  "fsub (Fin (10687087 / 2 ^ 33)) (Fin (8388609 / 2 ^ 35)) = Fin (8589935 / 2 ^ 33)"
  using round32_finite [of "- 10" "10687087 / 2 ^ 33 + - (8388609 / 2 ^ 35)" 8589935]
  by (simp add: fsub_def rne_def)

lemma read_back_test_rounds:
  "\<bar>10687087 / 2 ^ 33 - 8388609 / 2 ^ 35\<bar> < (8589935 / 2 ^ 33 :: real) \<and>
   \<not> dlt (dabs (fsub (float_val 0x3AA3126F) (float_val 0x39800001)))
         (float_val verify_epsilon)"
  by (simp add: small_float_values verify_epsilon_value fsub_rounds_up [simplified])

lemma sim_env_simps:
  "sim_env R x y w (NewRtu dev bd par db sb) = Done []"
  "sim_env R x y w (Connect c) = Done []"
  "sim_env R x y w (ReadRegisters c a n) =
     (if device c \<in> set R then Done (replicate n 0) else Failed)"
  "sim_env R x y w (WriteRegister c a v) = x"
  "sim_env R x y w (WriteRegisters c a vs) = y"
  by (simp_all add: sim_env_def)

text \<open>Runs on simulated transports, evaluated.\<close>

lemma integer_write_mismatch_run:
  "write_integer_register (sim_env [''/dev/ttyS3''] (Done []) (Done []))
     (session_ctx ''/dev/ttyS3'') 13 2 [] =
   (True,
    [Out (WriteSending 13 2),
     Call (WriteRegister (session_ctx ''/dev/ttyS3'') 13 2) (Done []),
     Call (ReadRegisters (session_ctx ''/dev/ttyS3'') 13 1) (Done [0]),
     Out (VerifyReadBack 13 0), Err ReadBackDiffers])"
  by (simp add: write_integer_register_def io_defs sim_env_def session_ctx_def)

lemma float_write_mismatch_run:
  "write_float_register (sim_env [''/dev/ttyS3''] (Done []) (Done []))
     (session_ctx ''/dev/ttyS3'') 28 CALIBRATION_COEFF_VALUE [] =
   (True,
    [Out (WriteFloatSending 28 CALIBRATION_COEFF_VALUE ''46494000''),
     Call (WriteRegisters (session_ctx ''/dev/ttyS3'') 28 [0x4649, 0x4000]) (Done []),
     Sleep 100000,
     Call (ReadRegisters (session_ctx ''/dev/ttyS3'') 28 2) (Done [0, 0]),
     Out (VerifyFloatReadBack 28 0 ''00000000''), Err ReadBackDiffers])"
proof -
  have z: "modbus_get_float_abcd [0, 0] = 0"
    by (simp add: modbus_get_float_abcd_def)
  have v: "float_val 0 = Fin 0"
    by (simp add: float_val_def Let_def)
  have h: "to_hex_string 0 0 = ''00000000''"
    by (simp add: to_hex_string_def hex4_def hex_digit_def)
  show ?thesis
    unfolding write_float_register_def coefficient_words
    by (simp add: io_defs sim_env_def session_ctx_def coefficient_hex coefficient_value
          verify_epsilon_value z v h fsub_zero_coefficient numeral_2_eq_2)
qed

lemma integer_write_refused_run:
  "write_integer_register (sim_env [''/dev/ttyS3''] Failed Failed)
     (session_ctx ''/dev/ttyS3'') 13 2 [] =
   (False,
    [Out (WriteSending 13 2),
     Call (WriteRegister (session_ctx ''/dev/ttyS3'') 13 2) Failed,
     Err (WriteRegisterFailed 13)])"
  by (simp add: write_integer_register_def io_defs sim_env_def session_ctx_def)

lemma float_write_refused_run:
  "write_float_register (sim_env [''/dev/ttyS3''] Failed Failed)
     (session_ctx ''/dev/ttyS3'') 28 CALIBRATION_COEFF_VALUE [] =
   (False,
    [Out (WriteFloatSending 28 CALIBRATION_COEFF_VALUE ''46494000''),
     Call (WriteRegisters (session_ctx ''/dev/ttyS3'') 28 [0x4649, 0x4000]) Failed,
     Err (WriteFloatFailed 28)])"
  unfolding write_float_register_def coefficient_words
  by (simp add: io_defs sim_env_def session_ctx_def coefficient_hex)

lemma float_write_rounding_run:
  "write_float_register (fixed_env [0x3AA3, 0x126F]) (session_ctx ''/dev/ttyS3'') 28
     0x39800001 [] =
   (True,
    [Out (WriteFloatSending 28 0x39800001 ''39800001''),
     Call (WriteRegisters (session_ctx ''/dev/ttyS3'') 28 [0x3980, 0x0001]) (Done []),
     Sleep 100000,
     Call (ReadRegisters (session_ctx ''/dev/ttyS3'') 28 2) (Done [0x3AA3, 0x126F]),
     Out (VerifyFloatReadBack 28 0x3AA3126F ''3AA3126F''), Err ReadBackDiffers])"
proof -
  have w: "modbus_set_float_abcd 0x39800001 = [0x3980, 0x0001]"
    by (simp add: modbus_set_float_abcd_def)
  have r: "modbus_get_float_abcd [0x3AA3, 0x126F] = 0x3AA3126F"
    by (simp add: modbus_get_float_abcd_def)
  have h: "to_hex_string 0x3980 0x0001 = ''39800001''"
    "to_hex_string 0x3AA3 0x126F = ''3AA3126F''"
    by (simp_all add: to_hex_string_def hex4_def hex_digit_def)
  show ?thesis
    unfolding write_float_register_def w
    using read_back_test_rounds
    by (simp add: io_defs fixed_env_def session_ctx_def r h numeral_2_eq_2)
qed

text \<open>
  C3. Each writer issues exactly one raw write, whose logged answer is the transport's
  answer to that request, and returns \<open>True\<close> exactly when that answer is not a failure.
  After a failed raw write no read-back is attempted and the error is printed. After a
  successful one the register is read back once and the result is \<open>True\<close> whatever comes
  back: an integer that is not equal to the written one, or a float whose binary32
  difference from the written one is not below \<open>0.001f\<close> in magnitude (the binary32 number
  nearest to 0.001, see \<open>verify_epsilon_value\<close>), only prints the warning "Read-back value
  differs". Every call in the log carries the transport's answer at that point.
\<close>

theorem write_and_verify:
  assumes "write_integer_register env ctx a v w = (acc, w')"
    and "write_float_register env ctx b f u = (facc, u')"
  shows "(\<exists>ev r. w' = w @ ev \<and> answered_by env w ev \<and>
            r = env (w @ [Out (WriteSending a v)]) (WriteRegister ctx a v) \<and>
            writes ev = [(WriteRegister ctx a v, r)] \<and>
            acc = (r \<noteq> Failed) \<and>
            (if acc
             then \<exists>rb. reads ev = [(ctx, a, 1, rb)] \<and>
                    (Out WriteVerified \<in> set ev \<longleftrightarrow> rb = Some [v]) \<and>
                    (Err ReadBackDiffers \<in> set ev \<longleftrightarrow> (\<exists>x. rb = Some [x] \<and> x \<noteq> v)) \<and>
                    (Err CouldNotVerify \<in> set ev \<longleftrightarrow> rb = None) \<and>
                    Err (WriteRegisterFailed a) \<notin> set ev
             else reads ev = [] \<and> Err (WriteRegisterFailed a) \<in> set ev \<and>
           Out WriteVerified \<notin> set ev)) \<and>
         (\<exists>ev r. u' = u @ ev \<and> answered_by env u ev \<and>
            r = env (u @ [Out (WriteFloatSending b f
                           (to_hex_string (modbus_set_float_abcd f ! 0)
                              (modbus_set_float_abcd f ! 1)))])
                  (WriteRegisters ctx b (modbus_set_float_abcd f)) \<and>
            writes ev = [(WriteRegisters ctx b (modbus_set_float_abcd f), r)] \<and>
            facc = (r \<noteq> Failed) \<and>
            (if facc
             then \<exists>rb. reads ev = [(ctx, b, 2, rb)] \<and>
                    (Out WriteVerified \<in> set ev \<longleftrightarrow>
                       (\<exists>ws. rb = Some ws \<and>
                          dlt (dabs (fsub (float_val (modbus_get_float_abcd ws)) (float_val f)))
                              (float_val verify_epsilon))) \<and>
                    (Err ReadBackDiffers \<in> set ev \<longleftrightarrow>
                       (\<exists>ws. rb = Some ws \<and>
                          \<not> dlt (dabs (fsub (float_val (modbus_get_float_abcd ws)) (float_val f)))
                                (float_val verify_epsilon))) \<and>
                    (Err CouldNotVerify \<in> set ev \<longleftrightarrow> rb = None) \<and>
                    Err (WriteFloatFailed b) \<notin> set ev
             else reads ev = [] \<and> Err (WriteFloatFailed b) \<in> set ev \<and>
           Out WriteVerified \<notin> set ev))"
  by (intro conjI write_integer_register_run [OF assms(1)]
        write_float_register_run [OF assms(2)])

text \<open>
  On a transport that accepts both writes and reads back zeros, the integer 2 and the
  coefficient 12880 are both accepted with a mismatch warning. On a transport that refuses
  every write, both writers return \<open>False\<close> and read nothing back. On a transport that
  reads back \<open>0x3AA3126F\<close> for the written \<open>0x39800001\<close>, the rounded difference is not
  below \<open>0.001f\<close> and the write is accepted with a mismatch warning.
\<close>

theorem write_and_verify_witness:
  "fst (write_integer_register (sim_env [''/dev/ttyS3''] (Done []) (Done []))
          (session_ctx ''/dev/ttyS3'') 13 2 []) \<and>
   fst (write_float_register (sim_env [''/dev/ttyS3''] (Done []) (Done []))
          (session_ctx ''/dev/ttyS3'') 28 CALIBRATION_COEFF_VALUE []) \<and>
   (\<exists>ev r. snd (write_integer_register (sim_env [''/dev/ttyS3''] (Done []) (Done []))
                  (session_ctx ''/dev/ttyS3'') 13 2 []) = ev \<and>
      writes ev = [(WriteRegister (session_ctx ''/dev/ttyS3'') 13 2, r)] \<and> r \<noteq> Failed \<and>
      reads ev = [(session_ctx ''/dev/ttyS3'', 13, 1, Some [0])] \<and>
      Err ReadBackDiffers \<in> set ev) \<and>
   (\<exists>ev r. snd (write_float_register (sim_env [''/dev/ttyS3''] (Done []) (Done []))
                  (session_ctx ''/dev/ttyS3'') 28 CALIBRATION_COEFF_VALUE []) = ev \<and>
      writes ev = [(WriteRegisters (session_ctx ''/dev/ttyS3'') 28 [0x4649, 0x4000], r)] \<and>
      r \<noteq> Failed \<and>
      reads ev = [(session_ctx ''/dev/ttyS3'', 28, 2, Some [0, 0])] \<and>
      Err ReadBackDiffers \<in> set ev) \<and>
   \<not> fst (write_integer_register (sim_env [''/dev/ttyS3''] Failed Failed)
            (session_ctx ''/dev/ttyS3'') 13 2 []) \<and>
   reads (snd (write_integer_register (sim_env [''/dev/ttyS3''] Failed Failed)
                 (session_ctx ''/dev/ttyS3'') 13 2 [])) = [] \<and>
   \<not> fst (write_float_register (sim_env [''/dev/ttyS3''] Failed Failed)
            (session_ctx ''/dev/ttyS3'') 28 CALIBRATION_COEFF_VALUE []) \<and>
   reads (snd (write_float_register (sim_env [''/dev/ttyS3''] Failed Failed)
                 (session_ctx ''/dev/ttyS3'') 28 CALIBRATION_COEFF_VALUE [])) = [] \<and>
   fst (write_float_register (fixed_env [0x3AA3, 0x126F]) (session_ctx ''/dev/ttyS3'') 28
          0x39800001 []) \<and>
   Err ReadBackDiffers \<in>
     set (snd (write_float_register (fixed_env [0x3AA3, 0x126F]) (session_ctx ''/dev/ttyS3'')
                 28 0x39800001 []))"
  using write_and_verify [OF integer_write_mismatch_run float_write_mismatch_run]
    write_and_verify [OF integer_write_refused_run float_write_refused_run]
    integer_write_mismatch_run float_write_mismatch_run
    integer_write_refused_run float_write_refused_run float_write_rounding_run
  by (simp add: writes_def reads_def sim_env_simps session_ctx_def coefficient_words)

text \<open>
  C10. When the raw write succeeds and the read-back itself fails, the writer still returns
  \<open>True\<close> and prints only the warning "Could not verify write": neither the mismatch
  warning nor the write error. A verified write returns the same \<open>True\<close>, so the result
  does not tell the two apart. Every call in the log carries the transport's answer.
\<close>

theorem unverified_write_accepted:
  assumes "write_integer_register env ctx a v w = (acc, w')"
    and "write_float_register env ctx b f u = (facc, u')"
  shows "\<exists>ev fev. w' = w @ ev \<and> u' = u @ fev \<and>
     (reads ev = [(ctx, a, 1, None)] \<longrightarrow>
        acc \<and> Err CouldNotVerify \<in> set ev \<and> Err ReadBackDiffers \<notin> set ev \<and>
        Out WriteVerified \<notin> set ev \<and> Err (WriteRegisterFailed a) \<notin> set ev) \<and>
     (Out WriteVerified \<in> set ev \<longrightarrow> acc) \<and>
     (reads fev = [(ctx, b, 2, None)] \<longrightarrow>
        facc \<and> Err CouldNotVerify \<in> set fev \<and> Err ReadBackDiffers \<notin> set fev \<and>
        Out WriteVerified \<notin> set fev \<and> Err (WriteFloatFailed b) \<notin> set fev) \<and>
     (Out WriteVerified \<in> set fev \<longrightarrow> facc) \<and>
     answered_by env w ev \<and> answered_by env u fev"
proof -
  from write_integer_register_run [OF assms(1)] obtain ev where
    ev: "w' = w @ ev" "answered_by env w ev"
      "reads ev = [(ctx, a, 1, None)] \<longrightarrow>
         acc \<and> Err CouldNotVerify \<in> set ev \<and> Err ReadBackDiffers \<notin> set ev \<and>
         Out WriteVerified \<notin> set ev \<and> Err (WriteRegisterFailed a) \<notin> set ev"
      "Out WriteVerified \<in> set ev \<longrightarrow> acc"
    by (cases acc) (auto split: if_splits)
  from write_float_register_run [OF assms(2)] obtain fev where
    fev: "u' = u @ fev" "answered_by env u fev"
      "reads fev = [(ctx, b, 2, None)] \<longrightarrow>
         facc \<and> Err CouldNotVerify \<in> set fev \<and> Err ReadBackDiffers \<notin> set fev \<and>
         Out WriteVerified \<notin> set fev \<and> Err (WriteFloatFailed b) \<notin> set fev"
      "Out WriteVerified \<in> set fev \<longrightarrow> facc"
    by (cases facc) (auto split: if_splits)
  from ev fev show ?thesis by blast
qed

lemma integer_write_unverified_run:
  "write_integer_register (sim_env [] (Done []) (Done []))
     (session_ctx ''/dev/ttyS3'') 13 2 [] =
   (True,
    [Out (WriteSending 13 2),
     Call (WriteRegister (session_ctx ''/dev/ttyS3'') 13 2) (Done []),
     Call (ReadRegisters (session_ctx ''/dev/ttyS3'') 13 1) Failed,
     Err CouldNotVerify])"
  by (simp add: write_integer_register_def io_defs sim_env_def session_ctx_def)

lemma float_write_unverified_run:
  "write_float_register (sim_env [] (Done []) (Done []))
     (session_ctx ''/dev/ttyS3'') 28 CALIBRATION_COEFF_VALUE [] =
   (True,
    [Out (WriteFloatSending 28 CALIBRATION_COEFF_VALUE ''46494000''),
     Call (WriteRegisters (session_ctx ''/dev/ttyS3'') 28 [0x4649, 0x4000]) (Done []),
     Sleep 100000,
     Call (ReadRegisters (session_ctx ''/dev/ttyS3'') 28 2) Failed,
     Err CouldNotVerify])"
  unfolding write_float_register_def coefficient_words
  by (simp add: io_defs sim_env_def session_ctx_def coefficient_hex)

text \<open>A sensor that takes both writes and then does not answer the read-back.\<close>

theorem unverified_write_accepted_witness:
  "reads (snd (write_integer_register (sim_env [] (Done []) (Done []))
                 (session_ctx ''/dev/ttyS3'') 13 2 [])) =
     [(session_ctx ''/dev/ttyS3'', 13, 1, None)] \<and>
   fst (write_integer_register (sim_env [] (Done []) (Done []))
          (session_ctx ''/dev/ttyS3'') 13 2 []) \<and>
   Err CouldNotVerify \<in> set (snd (write_integer_register (sim_env [] (Done []) (Done []))
                                    (session_ctx ''/dev/ttyS3'') 13 2 [])) \<and>
   reads (snd (write_float_register (sim_env [] (Done []) (Done []))
                 (session_ctx ''/dev/ttyS3'') 28 CALIBRATION_COEFF_VALUE [])) =
     [(session_ctx ''/dev/ttyS3'', 28, 2, None)] \<and>
   fst (write_float_register (sim_env [] (Done []) (Done []))
          (session_ctx ''/dev/ttyS3'') 28 CALIBRATION_COEFF_VALUE []) \<and>
   Err CouldNotVerify \<in> set (snd (write_float_register (sim_env [] (Done []) (Done []))
                                    (session_ctx ''/dev/ttyS3'') 28 CALIBRATION_COEFF_VALUE []))"
  using unverified_write_accepted [OF integer_write_unverified_run float_write_unverified_run]
    integer_write_unverified_run float_write_unverified_run
  by (simp add: reads_def sim_env_simps session_ctx_def)

section \<open>The calibration sequence, mode 2\<close>

lemma execute_calibration_mode2_run:
  assumes "execute_calibration env ctx CAL_MODE_2 w = (ok, w')"
  shows "\<exists>ev r1. w' = w @ ev \<and> answered_by env w ev \<and>
     r1 = env (w @ [Out (CalibrationBanner CAL_MODE_2), Out Mode2WritingCoefficient,
                    Out (WriteFloatSending 28 CALIBRATION_COEFF_VALUE ''46494000'')])
            (WriteRegisters ctx 28 [0x4649, 0x4000]) \<and>
     (if r1 = Failed
      then writes ev = [(WriteRegisters ctx 28 [0x4649, 0x4000], r1)] \<and> \<not> ok
      else \<exists>r2. writes ev =
                  [(WriteRegisters ctx 28 [0x4649, 0x4000], r1), (WriteRegister ctx 13 3, r2)] \<and>
                ok = (r2 \<noteq> Failed))"
  using assms
  unfolding execute_calibration_def write_float_register_def write_integer_register_def
    io_defs writes_def coefficient_words CALIBRATION_REG_COEFF_def CALIBRATION_REG_MODE_def
    CAL_MODE_2_VALUE_def
  by (auto split: if_splits reply.splits prod.splits bool.splits simp: coefficient_hex)

text \<open>
  C4. In mode 2 the first raw write is the float write of the coefficient 12880 (registers
  \<open>0x4649\<close>, \<open>0x4000\<close>) at register 28, and \<open>r1\<close> is the transport's answer to it. If the
  transport refuses it, it is the only write and the result is failure. If it succeeds,
  the integer write of 3 to register 13 follows and is the last write; the result is
  success exactly when the transport's answer to that second write is not a failure. So
  when the coefficient write succeeds and the mode write fails the result is failure and
  no further write to the coefficient register is issued. Every call in the log carries
  the transport's answer at that point.
\<close>

theorem mode2_sequence:
  assumes "execute_calibration env ctx CAL_MODE_2 w = (ok, w')"
  shows "\<exists>ev r1. w' = w @ ev \<and> answered_by env w ev \<and>
     r1 = env (w @ [Out (CalibrationBanner CAL_MODE_2), Out Mode2WritingCoefficient,
                    Out (WriteFloatSending 28 CALIBRATION_COEFF_VALUE ''46494000'')])
            (WriteRegisters ctx 28 [0x4649, 0x4000]) \<and>
     (if r1 = Failed
      then writes ev = [(WriteRegisters ctx 28 [0x4649, 0x4000], r1)] \<and> \<not> ok
      else \<exists>r2. writes ev =
                  [(WriteRegisters ctx 28 [0x4649, 0x4000], r1), (WriteRegister ctx 13 3, r2)] \<and>
                ok = (r2 \<noteq> Failed))"
  by (rule execute_calibration_mode2_run [OF assms])

lemma mode2_partial_run:
  "execute_calibration (sim_env [] Failed (Done [])) (session_ctx ''/dev/ttyS3'') CAL_MODE_2 [] =
   (False,
    [Out (CalibrationBanner CAL_MODE_2), Out Mode2WritingCoefficient,
     Out (WriteFloatSending 28 CALIBRATION_COEFF_VALUE ''46494000''),
     Call (WriteRegisters (session_ctx ''/dev/ttyS3'') 28 [0x4649, 0x4000]) (Done []),
     Sleep 100000,
     Call (ReadRegisters (session_ctx ''/dev/ttyS3'') 28 2) Failed,
     Err CouldNotVerify,
     Out Mode2WritingMode,
     Out (WriteSending 13 3),
     Call (WriteRegister (session_ctx ''/dev/ttyS3'') 13 3) Failed,
     Err (WriteRegisterFailed 13),
     Err CalibrationFailed,
     Sleep 1000000])"
  unfolding execute_calibration_def write_float_register_def write_integer_register_def
    coefficient_words
  by (simp add: io_defs sim_env_def session_ctx_def coefficient_hex
        CALIBRATION_REG_COEFF_def CALIBRATION_REG_MODE_def CAL_MODE_2_VALUE_def)

lemma mode2_refused_run:
  "execute_calibration (sim_env [] (Done []) Failed) (session_ctx ''/dev/ttyS3'') CAL_MODE_2 [] =
   (False,
    [Out (CalibrationBanner CAL_MODE_2), Out Mode2WritingCoefficient,
     Out (WriteFloatSending 28 CALIBRATION_COEFF_VALUE ''46494000''),
     Call (WriteRegisters (session_ctx ''/dev/ttyS3'') 28 [0x4649, 0x4000]) Failed,
     Err (WriteFloatFailed 28),
     Err CalibrationFailed,
     Sleep 1000000])"
  unfolding execute_calibration_def write_float_register_def write_integer_register_def
    coefficient_words
  by (simp add: io_defs sim_env_def session_ctx_def coefficient_hex
        CALIBRATION_REG_COEFF_def CALIBRATION_REG_MODE_def CAL_MODE_2_VALUE_def)

lemma mode2_complete_run:
  "fst (execute_calibration (sim_env [] (Done []) (Done [])) (session_ctx ''/dev/ttyS3'')
          CAL_MODE_2 []) \<and>
   writes (snd (execute_calibration (sim_env [] (Done []) (Done [])) (session_ctx ''/dev/ttyS3'')
                  CAL_MODE_2 [])) =
     [(WriteRegisters (session_ctx ''/dev/ttyS3'') 28 [0x4649, 0x4000], Done []),
      (WriteRegister (session_ctx ''/dev/ttyS3'') 13 3, Done [])]"
  unfolding execute_calibration_def write_float_register_def write_integer_register_def
    coefficient_words
  by (simp add: io_defs sim_env_def session_ctx_def coefficient_hex writes_def
        CALIBRATION_REG_COEFF_def CALIBRATION_REG_MODE_def CAL_MODE_2_VALUE_def)

text \<open>
  Three transports: the coefficient write is accepted and the mode write refused (failure,
  both writes issued, nothing after them); the coefficient write is refused (failure, the
  mode write never issued); both are accepted (success).
\<close>

theorem mode2_sequence_witness:
  "fst (execute_calibration (sim_env [] Failed (Done [])) (session_ctx ''/dev/ttyS3'')
          CAL_MODE_2 []) = False \<and>
   writes (snd (execute_calibration (sim_env [] Failed (Done [])) (session_ctx ''/dev/ttyS3'')
                  CAL_MODE_2 [])) =
     [(WriteRegisters (session_ctx ''/dev/ttyS3'') 28 [0x4649, 0x4000], Done []),
      (WriteRegister (session_ctx ''/dev/ttyS3'') 13 3, Failed)] \<and>
   fst (execute_calibration (sim_env [] (Done []) Failed) (session_ctx ''/dev/ttyS3'')
          CAL_MODE_2 []) = False \<and>
   writes (snd (execute_calibration (sim_env [] (Done []) Failed) (session_ctx ''/dev/ttyS3'')
                  CAL_MODE_2 [])) =
     [(WriteRegisters (session_ctx ''/dev/ttyS3'') 28 [0x4649, 0x4000], Failed)] \<and>
   fst (execute_calibration (sim_env [] (Done []) (Done [])) (session_ctx ''/dev/ttyS3'')
          CAL_MODE_2 []) \<and>
   writes (snd (execute_calibration (sim_env [] (Done []) (Done [])) (session_ctx ''/dev/ttyS3'')
                  CAL_MODE_2 [])) =
     [(WriteRegisters (session_ctx ''/dev/ttyS3'') 28 [0x4649, 0x4000], Done []),
      (WriteRegister (session_ctx ''/dev/ttyS3'') 13 3, Done [])]"
  using mode2_sequence [OF mode2_partial_run] mode2_sequence [OF mode2_refused_run]
    mode2_partial_run mode2_refused_run mode2_complete_run
  by (simp add: writes_def sim_env_simps)

section \<open>The sampling loop\<close>

lemma reads_Nil [simp]: "reads [] = []"
  by (simp add: reads_def)

lemma reads_Cons [simp]: "reads (e # es) = read_of e @ reads es"
  by (simp add: reads_def)

lemma reads_append [simp]: "reads (a @ b) = reads a @ reads b"
  by (simp add: reads_def)

lemma sampling_cycle_run:
  assumes "sampling_cycle env ctx port vs w = (vs', w')"
  shows "\<exists>ev. w' = w @ ev \<and> answered_by env w ev \<and>
           loop_count vs' = loop_count vs + 1 \<and>
           filter is_sleep ev = [Sleep 1000000] \<and> last ev = Sleep 1000000 \<and>
           (if filter is_failed_read ev = []
            then (\<exists>t r s. reads ev =
                    [(ctx, 60, 2, Some t), (ctx, 45, 2, Some r), (ctx, 41, 2, Some s)]) \<and>
                 (\<exists>d c. filter is_record ev = [Dashboard d, CsvRow c])
            else length (filter is_failed_read ev) = 1 \<and> filter is_record ev = [] \<and>
                 (\<exists>t r. reads ev = [(ctx, 60, 2, None)] \<or>
                        reads ev = [(ctx, 60, 2, Some t), (ctx, 45, 2, None)] \<or>
                        reads ev = [(ctx, 60, 2, Some t), (ctx, 45, 2, Some r),
                                    (ctx, 41, 2, None)]))"
  using assms unfolding sampling_cycle_def io_defs
  by (auto split: if_splits reply.splits prod.splits option.splits)

lemma sampling_loop_run:
  "sampling_loop n env ctx port vs w = (vs', w') \<Longrightarrow>
   \<exists>ev. w' = w @ ev \<and> answered_by env w ev \<and>
        loop_count vs' = loop_count vs + int n \<and>
        length (filter is_sleep ev) = n \<and>
        length (filter is_record ev) + 2 * length (filter is_failed_read ev) = 2 * n"
proof (induction n arbitrary: vs w)
  case 0
  then show ?case by simp
next
  case (Suc n)
  obtain vs1 w1 where c: "sampling_cycle env ctx port vs w = (vs1, w1)"
    by (cases "sampling_cycle env ctx port vs w")
  with Suc.prems have l: "sampling_loop n env ctx port vs1 w1 = (vs', w')"
    by simp
  from sampling_cycle_run [OF c] obtain e1 where
    e1: "w1 = w @ e1" "answered_by env w e1" "loop_count vs1 = loop_count vs + 1"
      "filter is_sleep e1 = [Sleep 1000000]"
      "length (filter is_record e1) + 2 * length (filter is_failed_read e1) = 2"
    by (auto split: if_splits)
  from Suc.IH [OF l] obtain e2 where
    e2: "w' = w1 @ e2" "answered_by env w1 e2" "loop_count vs' = loop_count vs1 + int n"
      "length (filter is_sleep e2) = n"
      "length (filter is_record e2) + 2 * length (filter is_failed_read e2) = 2 * n"
    by auto
  have "w' = w @ (e1 @ e2) \<and> answered_by env w (e1 @ e2) \<and>
        loop_count vs' = loop_count vs + int (Suc n) \<and>
        length (filter is_sleep (e1 @ e2)) = Suc n \<and>
        length (filter is_record (e1 @ e2)) + 2 * length (filter is_failed_read (e1 @ e2)) =
          2 * Suc n"
    using e1 e2 by (simp add: answered_by_append)
  then show ?case by blast
qed

text \<open>
  C7. One iteration of the acquisition loop reads the temperature pair (60), the raw EC
  pair (45) and the sensor EC pair (41), in this order, and stops reading at the first
  failure. If a read failed, the iteration emits no dashboard refresh and no CSV row; if all
  three succeeded it emits exactly one of each. Either way it ends with the one-second wait,
  its only wait, and the loop goes on: after \<open>n\<close> iterations the counter has advanced by
  \<open>n\<close>, \<open>n\<close> waits have happened, and every iteration either failed one read or emitted its
  two record events, whatever the transport answered. Every read in the log carries the
  transport's answer at that point.
\<close>

theorem sampling_cycle_all_or_nothing:
  assumes "sampling_cycle env ctx port vs w = (vs1, w1)"
    and "sampling_loop n env ctx port vs w = (vsn, wn)"
  shows "(\<exists>ev. w1 = w @ ev \<and> answered_by env w ev \<and>
           loop_count vs1 = loop_count vs + 1 \<and>
           filter is_sleep ev = [Sleep 1000000] \<and> last ev = Sleep 1000000 \<and>
           (if filter is_failed_read ev = []
            then (\<exists>t r s. reads ev =
                    [(ctx, 60, 2, Some t), (ctx, 45, 2, Some r), (ctx, 41, 2, Some s)]) \<and>
                 (\<exists>d c. filter is_record ev = [Dashboard d, CsvRow c])
            else length (filter is_failed_read ev) = 1 \<and> filter is_record ev = [] \<and>
                 (\<exists>t r. reads ev = [(ctx, 60, 2, None)] \<or>
                        reads ev = [(ctx, 60, 2, Some t), (ctx, 45, 2, None)] \<or>
                        reads ev = [(ctx, 60, 2, Some t), (ctx, 45, 2, Some r),
                                    (ctx, 41, 2, None)]))) \<and>
         (\<exists>ev. wn = w @ ev \<and> answered_by env w ev \<and>
           loop_count vsn = loop_count vs + int n \<and>
           length (filter is_sleep ev) = n \<and>
           length (filter is_record ev) + 2 * length (filter is_failed_read ev) = 2 * n)"
  by (intro conjI sampling_cycle_run [OF assms(1)] sampling_loop_run [OF assms(2)])

lemma zero_registers:
  "modbus_get_float_abcd [0, 0] = 0" "float_val 0 = Fin 0" "to_hex_string 0 0 = ''00000000''"
  by (simp_all add: modbus_get_float_abcd_def float_val_def Let_def to_hex_string_def
        hex4_def hex_digit_def)

lemma zero_steps:
  "round64 (- 25) = Fin (- 25)"
  "round64 (5188146770730811 / 2 ^ 58 * - 25) = Fin (- 2026619832316723 / 2 ^ 52)"
  "round64 (1 + - 2026619832316723 / 2 ^ 52) = Fin (2476979795053773 / 2 ^ 52)"
  using round64_finite [of 4 "- 25" "- 25 * 2 ^ 48"]
    round64_finite [of "- 2" "5188146770730811 / 2 ^ 58 * - 25" "- 8106479329266892"]
    round64_finite [of "- 1" "1 + - 2026619832316723 / 2 ^ 52" 4953959590107546]
  by (simp_all add: rne_def)

lemma smart_ec_zero:
  "calculate_smart_ec (Fin 0) (Fin 0) = Fin 0"
  "get_dynamic_k (Fin 0) = Fin (5188146770730811 / 2 ^ 58)"
  "dsub (Fin 0) (Fin 0) = Fin 0"
  by (simp_all add: calculate_smart_ec_def get_dynamic_k_def dsub_def dadd_def k_norm
        zero_steps [simplified])

lemma late_env_read:
  "late_env k w (ReadRegisters c a n) =
     (if k \<le> length w then Done (replicate n 0) else Failed)"
  by (simp add: late_env_def)

lemma late_cycle_fails:
  "sampling_cycle (late_env 1) (session_ctx ''/dev/ttyS3'') ''/dev/ttyS3''
     \<lparr>loop_count = 0, hex_temp = [], hex_raw_ec = []\<rparr> [] =
   (\<lparr>loop_count = 1, hex_temp = [], hex_raw_ec = []\<rparr>,
    [Call (ReadRegisters (session_ctx ''/dev/ttyS3'') 60 2) Failed,
     Err FailedReadTemperature, Sleep 1000000])"
  by (simp add: sampling_cycle_def io_defs late_env_def)

lemma late_cycle_succeeds:
  "sampling_cycle (late_env 1) (session_ctx ''/dev/ttyS3'') ''/dev/ttyS3''
     \<lparr>loop_count = 1, hex_temp = [], hex_raw_ec = []\<rparr>
     [Call (ReadRegisters (session_ctx ''/dev/ttyS3'') 60 2) Failed,
      Err FailedReadTemperature, Sleep 1000000] =
   (\<lparr>loop_count = 2, hex_temp = ''00000000'', hex_raw_ec = ''00000000''\<rparr>,
    [Call (ReadRegisters (session_ctx ''/dev/ttyS3'') 60 2) Failed,
     Err FailedReadTemperature, Sleep 1000000,
     Call (ReadRegisters (session_ctx ''/dev/ttyS3'') 60 2) (Done [0, 0]),
     Call (ReadRegisters (session_ctx ''/dev/ttyS3'') 45 2) (Done [0, 0]),
     Call (ReadRegisters (session_ctx ''/dev/ttyS3'') 41 2) (Done [0, 0]),
     Dashboard \<lparr>dash_temp = Fin 0, dash_raw_ec = Fin 0, dash_sensor_ec = Fin 0,
                dash_smart_ec = Fin 0, dash_k_used = Fin (5188146770730811 / 2 ^ 58),
                dash_sample_count = 2,
                dash_port = ''/dev/ttyS3'', dash_hex_temp = ''00000000'',
                dash_hex_raw_ec = ''00000000''\<rparr>,
     CsvRow \<lparr>csv_temp = Fin 0, csv_hex_temp = ''00000000'', csv_raw_ec = Fin 0,
             csv_hex_raw_ec = ''00000000'', csv_sensor_ec = Fin 0, csv_smart_ec = Fin 0,
             csv_deviation = Fin 0\<rparr>,
     Sleep 1000000])"
  by (simp add: sampling_cycle_def io_defs late_env_def zero_registers
        smart_ec_zero [simplified] numeral_2_eq_2)

lemma sampling_loop_two:
  "sampling_loop (Suc (Suc 0)) env ctx port vs w =
     (case sampling_cycle env ctx port vs w of
        (vs1, w1) \<Rightarrow> sampling_cycle env ctx port vs1 w1)"
  by (simp split: prod.splits)

lemma late_loop_two:
  "sampling_loop (Suc (Suc 0)) (late_env 1) (session_ctx ''/dev/ttyS3'') ''/dev/ttyS3''
     \<lparr>loop_count = 0, hex_temp = [], hex_raw_ec = []\<rparr> [] =
   sampling_cycle (late_env 1) (session_ctx ''/dev/ttyS3'') ''/dev/ttyS3''
     \<lparr>loop_count = 1, hex_temp = [], hex_raw_ec = []\<rparr>
     [Call (ReadRegisters (session_ctx ''/dev/ttyS3'') 60 2) Failed,
      Err FailedReadTemperature, Sleep 1000000]"
  by (simp only: sampling_loop_two late_cycle_fails prod.case)

text \<open>
  Two iterations on a sensor that misses the first read: the first iteration emits nothing
  and waits, the second emits one dashboard refresh and one CSV row.
\<close>

theorem sampling_cycle_all_or_nothing_witness:
  "(\<exists>vs1 w1. sampling_cycle (late_env 1) (session_ctx ''/dev/ttyS3'') ''/dev/ttyS3''
                \<lparr>loop_count = 0, hex_temp = [], hex_raw_ec = []\<rparr> [] = (vs1, w1) \<and>
      loop_count vs1 = 1 \<and> filter is_record w1 = [] \<and> length (filter is_failed_read w1) = 1 \<and>
      last w1 = Sleep 1000000) \<and>
   (\<exists>vsn wn. sampling_loop (Suc (Suc 0)) (late_env 1) (session_ctx ''/dev/ttyS3'')
                ''/dev/ttyS3'' \<lparr>loop_count = 0, hex_temp = [], hex_raw_ec = []\<rparr> [] = (vsn, wn) \<and>
      loop_count vsn = 2 \<and> length (filter is_sleep wn) = 2 \<and>
      length (filter is_record wn) = 2 \<and> length (filter is_failed_read wn) = 1)"
  using sampling_cycle_all_or_nothing [OF late_cycle_fails late_loop_two [unfolded late_cycle_succeeds]]
    late_cycle_fails late_loop_two [unfolded late_cycle_succeeds]
  by (simp add: late_env_read)

section \<open>Discovery\<close>

lemma attempts_Nil [simp]: "attempts [] = []"
  by (simp add: attempts_def)

lemma attempts_Cons [simp]: "attempts (e # es) = attempt_of e @ attempts es"
  by (simp add: attempts_def)

lemma attempts_append [simp]: "attempts (a @ b) = attempts a @ attempts b"
  by (simp add: attempts_def)

lemma answered_Nil [simp]: "answered [] = []"
  by (simp add: answered_def)

lemma answered_Cons [simp]:
  "answered (e # es) =
     map (\<lambda>(c, a, n, r). device c) (filter (\<lambda>(c, a, n, r). r \<noteq> None) (read_of e)) @
     answered es"
  by (simp add: answered_def)

lemma answered_append [simp]: "answered (a @ b) = answered a @ answered b"
  by (simp add: answered_def)

text \<open>The scan loop does one probe and then returns the port or goes on.\<close>

lemma scan_ports_Cons:
  "scan_ports env (q # qs) w =
     (case probe_events env q w of
        (True, ev) \<Rightarrow> (q, w @ ev)
      | (False, ev) \<Rightarrow> scan_ports env qs (w @ ev))"
  unfolding scan_ports.simps conn_defs io_defs probe_events_def probe_ctx_def
  by (auto split: reply.splits if_splits prod.splits bool.splits option.splits)


lemma probe_events_answered:
  "probe_events env q w = (hit, ev) \<Longrightarrow> answered_by env w ev"
  unfolding probe_events_def Let_def
  by (auto split: if_splits)

lemma scan_ports_answered:
  "scan_ports env ps w = (p, w') \<Longrightarrow> \<exists>ev. w' = w @ ev \<and> answered_by env w ev"
proof (induction ps arbitrary: w)
  case Nil
  then show ?case by simp
next
  case (Cons q qs)
  obtain hit ev where pe: "probe_events env q w = (hit, ev)"
    by (cases "probe_events env q w")
  note a = probe_events_answered [OF pe]
  show ?case
  proof (cases hit)
    case True
    with pe Cons.prems have "w' = w @ ev"
      unfolding scan_ports_Cons by simp
    with a show ?thesis by blast
  next
    case False
    with pe Cons.prems have "scan_ports env qs (w @ ev) = (p, w')"
      unfolding scan_ports_Cons by simp
    from Cons.IH [OF this] obtain e2 where "w' = (w @ ev) @ e2" "answered_by env (w @ ev) e2"
      by blast
    with a have "w' = w @ (ev @ e2) \<and> answered_by env w (ev @ e2)"
      by (simp add: answered_by_append)
    then show ?thesis by blast
  qed
qed

lemma find_sensor_port_answered:
  "find_sensor_port env w = (p, w') \<Longrightarrow> \<exists>ev. w' = w @ ev \<and> answered_by env w ev"
proof -
  assume "find_sensor_port env w = (p, w')"
  then have "scan_ports env candidate_ports (w @ [Out ScanningPorts]) = (p, w')"
    by (simp add: find_sensor_port_def print_out_def)
  from scan_ports_answered [OF this] obtain ev where
    "w' = (w @ [Out ScanningPorts]) @ ev" "answered_by env (w @ [Out ScanningPorts]) ev"
    by blast
  then have "w' = w @ (Out ScanningPorts # ev) \<and> answered_by env w (Out ScanningPorts # ev)"
    by simp
  then show ?thesis by blast
qed



lemma candidate_ports_list:
  "candidate_ports =
     [''/dev/ttyS0'', ''/dev/ttyS1'', ''/dev/ttyS2'', ''/dev/ttyS3'', ''/dev/ttyS4'',
      ''/dev/ttyS5'', ''/dev/ttyS6'', ''/dev/ttyS7'', ''/dev/ttyS8'', ''/dev/ttyS9'',
      ''/dev/ttyS10'', ''/dev/ttyS11'', ''/dev/ttyS12'', ''/dev/ttyS13'', ''/dev/ttyS14'',
      ''/dev/ttyS15'', ''/dev/ttyS16'', ''/dev/ttyS17'', ''/dev/ttyS18'', ''/dev/ttyS19'',
      ''/dev/ttyS20'',
      ''/dev/ttyUSB0'', ''/dev/ttyACM0'', ''/dev/ttyUSB1'', ''/dev/ttyACM1'',
      ''/dev/ttyUSB2'', ''/dev/ttyACM2'', ''/dev/ttyUSB3'', ''/dev/ttyACM3'',
      ''/dev/ttyUSB4'', ''/dev/ttyACM4'']"
  unfolding candidate_ports_def to_string_def
  by (simp add: upt_rec)






lemma scan_ports_Cons_if:
  "scan_ports env (q # qs) w =
     (if fst (probe_events env q w) then (q, w @ snd (probe_events env q w))
      else scan_ports env qs (w @ snd (probe_events env q w)))"
  unfolding scan_ports_Cons
  by (cases "probe_events env q w") (simp split: bool.splits)

lemma probe_events_sim_run:
  "probe_events (sim_env R a b) q w =
     (if q \<in> set R
      then (True,
            [Call (NewRtu q 9600 CHR ''N'' 8 1) (Done []),
             Call (Connect (probe_ctx q)) (Done []),
             Call (ReadRegisters (probe_ctx q) 60 2) (Done [0, 0]),
             Out (FoundSensor q), Close (probe_ctx q), Free (probe_ctx q)])
      else (False,
            [Call (NewRtu q 9600 CHR ''N'' 8 1) (Done []),
             Call (Connect (probe_ctx q)) (Done []),
             Call (ReadRegisters (probe_ctx q) 60 2) Failed,
             Close (probe_ctx q), Free (probe_ctx q)]))"
  by (simp add: probe_events_def sim_env_def Let_def probe_ctx_def numeral_2_eq_2)

text \<open>A start of the program with the sensor on the second candidate port.\<close>

lemma main_connect_second_port_run:
  "main_connect (sim_env [''/dev/ttyS1''] Failed Failed) [] =
   (Inr (session_ctx ''/dev/ttyS1'', ''/dev/ttyS1''),
    [Out ScanningPorts,
     Call (NewRtu ''/dev/ttyS0'' 9600 CHR ''N'' 8 1) (Done []),
     Call (Connect (probe_ctx ''/dev/ttyS0'')) (Done []),
     Call (ReadRegisters (probe_ctx ''/dev/ttyS0'') 60 2) Failed,
     Close (probe_ctx ''/dev/ttyS0''), Free (probe_ctx ''/dev/ttyS0''),
     Call (NewRtu ''/dev/ttyS1'' 9600 CHR ''N'' 8 1) (Done []),
     Call (Connect (probe_ctx ''/dev/ttyS1'')) (Done []),
     Call (ReadRegisters (probe_ctx ''/dev/ttyS1'') 60 2) (Done [0, 0]),
     Out (FoundSensor ''/dev/ttyS1''),
     Close (probe_ctx ''/dev/ttyS1''), Free (probe_ctx ''/dev/ttyS1''),
     Call (NewRtu ''/dev/ttyS1'' 9600 CHR ''N'' 8 1) (Done []),
     Call (Connect (session_ctx ''/dev/ttyS1'')) (Done []),
     Out (ConnectedTo ''/dev/ttyS1'')])"
proof -
  have scan: "find_sensor_port (sim_env [''/dev/ttyS1''] Failed Failed) [] =
    (''/dev/ttyS1'',
     [Out ScanningPorts,
      Call (NewRtu ''/dev/ttyS0'' 9600 CHR ''N'' 8 1) (Done []),
      Call (Connect (probe_ctx ''/dev/ttyS0'')) (Done []),
      Call (ReadRegisters (probe_ctx ''/dev/ttyS0'') 60 2) Failed,
      Close (probe_ctx ''/dev/ttyS0''), Free (probe_ctx ''/dev/ttyS0''),
      Call (NewRtu ''/dev/ttyS1'' 9600 CHR ''N'' 8 1) (Done []),
      Call (Connect (probe_ctx ''/dev/ttyS1'')) (Done []),
      Call (ReadRegisters (probe_ctx ''/dev/ttyS1'') 60 2) (Done [0, 0]),
      Out (FoundSensor ''/dev/ttyS1''),
      Close (probe_ctx ''/dev/ttyS1''), Free (probe_ctx ''/dev/ttyS1'')])"
    unfolding find_sensor_port_def candidate_ports_list print_out_def
    by (simp add: scan_ports_Cons_if probe_events_sim_run del: scan_ports.simps)
  show ?thesis
    unfolding main_connect_def scan
    by (simp add: conn_defs io_defs sim_env_def session_ctx_def)
qed




section \<open>One connection at a time\<close>

lemma step_open_Connect:
  "step_open os (Call (Connect c) r) = (if r = Failed then os else c # os)"
  by (cases r) simp_all

lemma open_after_append: "open_after (a @ b) = foldl step_open (open_after a) b"
  by (simp add: open_after_def)

lemma one_at_a_time_append:
  "one_at_a_time os (a @ b) \<longleftrightarrow>
     one_at_a_time os a \<and> one_at_a_time (foldl step_open os a) b"
proof (induction a arbitrary: os)
  case Nil
  show ?case by (cases b) auto
next
  case (Cons e a)
  then show ?case by auto
qed

lemma one_at_a_time_take:
  "one_at_a_time os tr \<Longrightarrow> length (foldl step_open os (take n tr)) \<le> 1"
proof (induction tr arbitrary: os n)
  case Nil
  then show ?case by simp
next
  case (Cons e tr)
  show ?case
  proof (cases n)
    case 0
    with Cons.prems show ?thesis by (auto split: if_splits)
  next
    case (Suc m)
    with Cons show ?thesis by simp
  qed
qed

lemma probe_events_closed:
  "probe_events env q w = (hit, ev) \<Longrightarrow> foldl step_open [] ev = [] \<and> one_at_a_time [] ev"
  unfolding probe_events_def Let_def
  by (auto split: if_splits simp: step_open_Connect)

lemma scan_ports_closed:
  "scan_ports env ps w = (p, w') \<Longrightarrow> open_after w = [] \<Longrightarrow> one_at_a_time [] w \<Longrightarrow>
   open_after w' = [] \<and> one_at_a_time [] w' \<and> take (length w) w' = w"
proof (induction ps arbitrary: w)
  case Nil
  then show ?case by simp
next
  case (Cons q qs)
  obtain hit ev where pe: "probe_events env q w = (hit, ev)"
    by (cases "probe_events env q w")
  from probe_events_closed [OF pe] Cons.prems(2,3)
  have ext: "open_after (w @ ev) = []" "one_at_a_time [] (w @ ev)"
    by (simp_all add: open_after_append one_at_a_time_append open_after_def)
  show ?case
  proof (cases hit)
    case True
    with pe Cons.prems(1) have "w' = w @ ev"
      unfolding scan_ports_Cons by simp
    with ext show ?thesis by simp
  next
    case False
    with pe Cons.prems(1) have "scan_ports env qs (w @ ev) = (p, w')"
      unfolding scan_ports_Cons by simp
    from Cons.IH [OF this ext] have r: "open_after w' = []" "one_at_a_time [] w'"
      "take (length (w @ ev)) w' = w @ ev"
      by simp_all
    from r(3) have "take (length w) (take (length (w @ ev)) w') = w"
      by simp
    then have "take (length w) w' = w"
      by (simp add: min_def)
    with r show ?thesis by simp
  qed
qed

lemma find_sensor_port_closed:
  "find_sensor_port env [] = (p, wd) \<Longrightarrow>
   open_after wd = [] \<and> one_at_a_time [] wd"
  unfolding find_sensor_port_def print_out_def
  by (drule scan_ports_closed) (simp_all add: open_after_def)

lemma main_connect_closed:
  assumes "find_sensor_port env [] = (p, wd)" and "main_connect env [] = (res, wm)"
  shows "one_at_a_time [] wm \<and> take (length wd) wm = wd \<and>
         open_after wm = (case res of Inl code \<Rightarrow> [] | Inr (ctx, port) \<Rightarrow> [ctx]) \<and>
         answered_by env [] wm"
proof -
  from find_sensor_port_closed [OF assms(1)]
  have c: "foldl step_open [] wd = []" "one_at_a_time [] wd"
    by (simp_all add: open_after_def)
  from find_sensor_port_answered [OF assms(1)]
  have a: "answered_by env [] wd"
    by simp
  show ?thesis
    using assms(2) c a unfolding main_connect_def assms(1) conn_defs io_defs open_after_def
    by (auto split: if_splits reply.splits prod.splits bool.splits
             simp: one_at_a_time_append step_open_Connect answered_by_append)
qed

lemma quiet_step: "is_quiet e \<Longrightarrow> step_open os e = os \<and> \<not> is_new_rtu e"
  by (cases e rule: is_quiet.cases) simp_all

lemma quiet_run:
  "list_all is_quiet ev \<Longrightarrow> length os \<le> 1 \<Longrightarrow>
   foldl step_open os ev = os \<and> one_at_a_time os ev"
  by (induction ev) (simp_all add: quiet_step)

lemma sampling_cycle_quiet:
  "sampling_cycle env ctx port vs w = (vs', w') \<Longrightarrow>
   \<exists>ev. w' = w @ ev \<and> list_all is_quiet ev \<and> answered_by env w ev"
  unfolding sampling_cycle_def io_defs
  by (auto split: if_splits reply.splits prod.splits option.splits)

lemma sampling_loop_quiet:
  "sampling_loop n env ctx port vs w = (vs', w') \<Longrightarrow>
   \<exists>ev. w' = w @ ev \<and> list_all is_quiet ev \<and> answered_by env w ev"
proof (induction n arbitrary: vs w)
  case 0
  then show ?case by simp
next
  case (Suc n)
  obtain vs1 w1 where c: "sampling_cycle env ctx port vs w = (vs1, w1)"
    by (cases "sampling_cycle env ctx port vs w")
  with Suc.prems have l: "sampling_loop n env ctx port vs1 w1 = (vs', w')"
    by simp
  from sampling_cycle_quiet [OF c] obtain e1 where
    e1: "w1 = w @ e1" "list_all is_quiet e1" "answered_by env w e1"
    by blast
  from Suc.IH [OF l] obtain e2 where
    e2: "w' = w1 @ e2" "list_all is_quiet e2" "answered_by env w1 e2"
    by blast
  from e1 e2 have "w' = w @ (e1 @ e2) \<and> list_all is_quiet (e1 @ e2) \<and>
      answered_by env w (e1 @ e2)"
    by (simp add: answered_by_append)
  then show ?case by blast
qed

lemma main_calibrate_quiet:
  "\<exists>ev. main_calibrate env ctx cal_mode w = w @ ev \<and> list_all is_quiet ev \<and>
        answered_by env w ev"
  unfolding main_calibrate_def execute_calibration_def write_float_register_def
    write_integer_register_def io_defs
  by (cases cal_mode) (auto split: if_splits reply.splits prod.splits bool.splits)

lemma main_run_one_at_a_time:
  "one_at_a_time [] (main_run n cal_mode env) \<and> answered_by env [] (main_run n cal_mode env)"
proof -
  obtain p wd where d: "find_sensor_port env [] = (p, wd)"
    by (cases "find_sensor_port env []")
  obtain res wm where m: "main_connect env [] = (res, wm)"
    by (cases "main_connect env []")
  from main_connect_closed [OF d m]
  have c: "one_at_a_time [] wm"
    "foldl step_open [] wm = (case res of Inl code \<Rightarrow> [] | Inr (ctx, port) \<Rightarrow> [ctx])"
    "answered_by env [] wm"
    by (simp_all add: open_after_def)
  show ?thesis
  proof (cases res)
    case (Inl code)
    with m c show ?thesis by (simp add: main_run_def)
  next
    case (Inr cp)
    obtain ctx port where cp: "cp = (ctx, port)" by (cases cp)
    obtain e1 where e1: "main_calibrate env ctx cal_mode wm = wm @ e1" "list_all is_quiet e1"
      "answered_by env wm e1"
      using main_calibrate_quiet by blast
    obtain vs' w' where l: "sampling_loop n env ctx port
        \<lparr>loop_count = 0, hex_temp = [], hex_raw_ec = []\<rparr> (wm @ e1) = (vs', w')"
      by (cases "sampling_loop n env ctx port
        \<lparr>loop_count = 0, hex_temp = [], hex_raw_ec = []\<rparr> (wm @ e1)")
    from sampling_loop_quiet [OF l] obtain e2 where
      e2: "w' = (wm @ e1) @ e2" "list_all is_quiet e2" "answered_by env (wm @ e1) e2"
      by blast
    have q: "list_all is_quiet (e1 @ e2)" using e1 e2 by simp
    have "one_at_a_time [] (wm @ (e1 @ e2)) \<and> answered_by env [] (wm @ (e1 @ e2))"
      using c quiet_run [OF q, of "[ctx]"] Inr cp e1(3) e2(3)
      by (simp add: one_at_a_time_append answered_by_append)
    moreover have "main_run n cal_mode env = wm @ (e1 @ e2)"
      using m Inr cp e1 l e2 by (simp add: main_run_def)
    ultimately show ?thesis by simp
  qed
qed

text \<open>
  C8. Over the whole run of \<open>main\<close> (discovery, session connection, calibration in any
  mode, any number of loop iterations), at every instant at most one connection is open,
  and none is open whenever a context for a port is created: each probe connection is
  closed before the next candidate is tried. When \<open>find_sensor_port\<close> returns, no
  connection is open, the winning probe's included. The run of \<open>main\<close> continues the run of
  the discovery, so the session connection is opened after the discovery has returned, and
  at the end of step 2 it is the only open connection. Every call in the log of the run
  carries the transport's answer at that point.
\<close>

theorem one_connection_at_a_time:
  "one_at_a_time [] (main_run n cal_mode env) \<and>
   (\<forall>k. length (open_after (take k (main_run n cal_mode env))) \<le> 1) \<and>
   one_at_a_time [] (snd (main_connect env [])) \<and>
   one_at_a_time [] (snd (find_sensor_port env [])) \<and>
   open_after (snd (find_sensor_port env [])) = [] \<and>
   take (length (snd (find_sensor_port env []))) (snd (main_connect env [])) =
     snd (find_sensor_port env []) \<and>
   open_after (snd (main_connect env [])) =
     (case fst (main_connect env []) of Inl code \<Rightarrow> [] | Inr (ctx, port) \<Rightarrow> [ctx]) \<and>
   answered_by env [] (main_run n cal_mode env)"
proof -
  obtain p wd where d: "find_sensor_port env [] = (p, wd)"
    by (cases "find_sensor_port env []")
  obtain res wm where m: "main_connect env [] = (res, wm)"
    by (cases "main_connect env []")
  from main_connect_closed [OF d m] find_sensor_port_closed [OF d]
    main_run_one_at_a_time [of n cal_mode env]
    one_at_a_time_take [of "[]" "main_run n cal_mode env"]
  show ?thesis
    by (simp add: d m open_after_def)
qed

text \<open>
  The start of the program with the sensor on the second candidate port: two probes, each
  closed before the next context is created, then the session connection alone.
\<close>

theorem one_connection_at_a_time_witness:
  "one_at_a_time [] (snd (main_connect (sim_env [''/dev/ttyS1''] Failed Failed) [])) \<and>
   open_after (snd (find_sensor_port (sim_env [''/dev/ttyS1''] Failed Failed) [])) = [] \<and>
   open_after (snd (main_connect (sim_env [''/dev/ttyS1''] Failed Failed) [])) =
     [session_ctx ''/dev/ttyS1''] \<and>
   open_after (take 8 (snd (main_connect (sim_env [''/dev/ttyS1''] Failed Failed) []))) =
     [probe_ctx ''/dev/ttyS1'']"
  using one_connection_at_a_time [of 0 CAL_MODE_NONE "sim_env [''/dev/ttyS1''] Failed Failed"]
  by (simp add: main_connect_second_port_run open_after_def)

end
